theory Spec2Isabelle
  imports Complex_Main "HOL-Library.Word"
begin

section \<open>The audio-reactive avatar controller (class GdmLiveAudioAvatar)\<close>

text \<open>
  A shallow embedding of the animation controller of the avatar element: the public mode
  controls, \<open>pullLevel\<close>, \<open>applyMorph\<close>, \<open>lerpMorph\<close>, \<open>scheduleNextBlink\<close>,
  \<open>doBlink\<close> and the per-frame method \<open>animate\<close>.

  JavaScript numbers are modelled as the reals, so every statement below is about the
  arithmetic the code writes down, without rounding. What the code reads from the browser in
  one frame (the clock, the random generator, the two analysers) is an explicit input of the
  frame. All calls of \<open>performance.now()\<close> within one frame read the same instant.
\<close>

subsection \<open>Library functions used by the controller\<close>

text \<open>\<open>THREE.MathUtils.clamp(value, min, max)\<close> is \<open>Math.max(min, Math.min(max, value))\<close>.\<close>

definition clamp :: "real \<Rightarrow> real \<Rightarrow> real \<Rightarrow> real" where
  "clamp v lo hi = max lo (min hi v)"

text \<open>\<open>THREE.MathUtils.lerp(x, y, t)\<close> is \<open>(1 - t) * x + t * y\<close>.\<close>

definition lerp :: "real \<Rightarrow> real \<Rightarrow> real \<Rightarrow> real" where
  "lerp x y t = (1 - t) * x + t * y"

subsection \<open>Data\<close>

datatype AvatarMode = Idle | Speak | Whisper | Dance

text \<open>
  The morph-target dictionary of a mesh is a plain JavaScript object from channel names to
  indices of the influences array. Reading \<open>dict[name]\<close> gives the index stored under
  the name; for a name the dictionary does not store it gives what the object inherits from
  \<open>Object.prototype\<close> under that name, a function or an object, and \<open>undefined\<close> only
  when there is no such member either.
\<close>

definition object_prototype_names :: "string list" where
  "object_prototype_names =
     [''constructor'', ''toString'', ''toLocaleString'', ''valueOf'', ''hasOwnProperty'',
      ''isPrototypeOf'', ''propertyIsEnumerable'', ''__proto__'', ''__defineGetter__'',
      ''__defineSetter__'', ''__lookupGetter__'', ''__lookupSetter__'']"

text \<open>
  A property key of the influences array: an index, or the string that the inherited member
  of the given name turns into when it is used as a key.
\<close>

datatype property_key = Index nat | Member string

text \<open>\<open>dict[name]\<close>, as the key under which it then addresses the influences array.\<close>

definition dict_get :: "(string \<times> nat) list \<Rightarrow> string \<Rightarrow> property_key option" where
  "dict_get dict n =
     (case map_of dict n of
        Some i \<Rightarrow> Some (Index i)
      | None \<Rightarrow> if n \<in> set object_prototype_names then Some (Member n) else None)"

text \<open>
  A node of the loaded scene graph. The dictionary and the influences array may each be
  missing on a node. The influences array is a JavaScript array: reading a key never written
  gives \<open>undefined\<close> (here \<open>None\<close>) and writing any key stores the value.
\<close>

record object3d =
  obj_name :: string
  isMesh :: bool
  morphTargetDictionary :: "(string \<times> nat) list option"
  morphTargetInfluences :: "(property_key \<rightharpoonup> real) option"
  position_y :: real
  rotation_x :: real
  rotation_y :: real
  rotation_z :: real
  scale_xyz :: "real \<times> real \<times> real"

text \<open>
  The avatar: the group returned by the loader and its descendants in the order in which
  \<open>traverse\<close> visits them. Node \<open>0\<close> is the group itself, node \<open>i + 1\<close> is
  descendant \<open>i\<close>.
\<close>

record scene_graph =
  group :: object3d
  descendants :: "object3d list"

datatype log_entry =
    LogMode AvatarMode
  | LogSettingMode AvatarMode
  | LogMorphs string "string list"

datatype error = TypeError

text \<open>
  The analyser of a channel, as \<open>pullLevel\<close> sees it after \<open>an.update()\<close>: its
  \<open>data\<close>, a byte array or nothing. The analyser itself may be undefined.
\<close>

type_synonym Analyser = "8 word list option"

record avatar_state =
  mode :: AvatarMode
  outLevel :: real
  inLevel :: real
  nextBlinkAt :: real
  blinkT :: real
  dancePhase :: real
  isDancing :: bool
  avatar :: "scene_graph option"
  headMesh :: "nat option"
  teethMesh :: "nat option"
  console :: "log_entry list"

text \<open>What one frame reads from its environment.\<close>

record frame_env =
  now :: real
  delta :: real
  rand :: real
  outputAnalyser :: "Analyser option"
  inputAnalyser :: "Analyser option"

text \<open>The field initialisers of the class.\<close>

definition initial_state :: avatar_state where
  "initial_state = \<lparr> mode = Idle, outLevel = 0, inLevel = 0, nextBlinkAt = 0, blinkT = 0,
     dancePhase = 0, isDancing = False, avatar = None, headMesh = None, teethMesh = None,
     console = [] \<rparr>"

subsection \<open>Scene graph access\<close>

definition nodes :: "scene_graph \<Rightarrow> object3d list" where
  "nodes a = group a # descendants a"

text \<open>\<open>Object3D.traverse\<close> with a callback that changes only the node it is given.\<close>

definition traverse :: "(object3d \<Rightarrow> object3d) \<Rightarrow> scene_graph \<Rightarrow> scene_graph" where
  "traverse f a = a\<lparr> group := f (group a), descendants := map f (descendants a) \<rparr>"

definition update_node :: "nat \<Rightarrow> (object3d \<Rightarrow> object3d) \<Rightarrow> scene_graph \<Rightarrow> scene_graph" where
  "update_node i f a =
     (if i = 0 then a\<lparr> group := f (group a) \<rparr>
      else a\<lparr> descendants := (descendants a)[i - 1 := f (descendants a ! (i - 1))] \<rparr>)"

fun first_index :: "('a \<Rightarrow> bool) \<Rightarrow> 'a list \<Rightarrow> nat option" where
  "first_index P [] = None"
| "first_index P (x # xs) =
     (if P x then Some 0 else map_option Suc (first_index P xs))"

fun last_index :: "('a \<Rightarrow> bool) \<Rightarrow> 'a list \<Rightarrow> nat option" where
  "last_index P [] = None"
| "last_index P (x # xs) =
     (case last_index P xs of
        Some i \<Rightarrow> Some (Suc i)
      | None \<Rightarrow> (if P x then Some 0 else None))"

text \<open>\<open>Object3D.getObjectByName\<close>: the first node with that name, the group first.\<close>

definition getObjectByName :: "string \<Rightarrow> scene_graph \<Rightarrow> nat option" where
  "getObjectByName n a = first_index (\<lambda>c. obj_name c = n) (nodes a)"

subsection \<open>Public controls\<close>

definition startSpeaking :: "avatar_state \<Rightarrow> avatar_state" where
  "startSpeaking s = s\<lparr> mode := Speak \<rparr>"

definition startWhisper :: "avatar_state \<Rightarrow> avatar_state" where
  "startWhisper s = s\<lparr> mode := Whisper \<rparr>"

definition startDance :: "avatar_state \<Rightarrow> avatar_state" where
  "startDance s = s\<lparr> mode := Dance, isDancing := True \<rparr>"

definition stopDance :: "avatar_state \<Rightarrow> avatar_state" where
  "stopDance s =
     (let s1 = s\<lparr> isDancing := False \<rparr>
      in if mode s1 = Dance then s1\<lparr> mode := Idle \<rparr> else s1)"

definition goIdle :: "avatar_state \<Rightarrow> avatar_state" where
  "goIdle s = s\<lparr> mode := Idle, isDancing := False \<rparr>"

text \<open>The \<open>mode\<close> property setter.\<close>

definition set_mode :: "AvatarMode \<Rightarrow> avatar_state \<Rightarrow> avatar_state" where
  "set_mode m s = s\<lparr> console := console s @ [LogSettingMode m], mode := m \<rparr>"

subsection \<open>Loudness\<close>

text \<open>\<open>pullLevel(an, prev, alpha)\<close>: the mean of the magnitudes scaled to 0..1, smoothed.\<close>

definition pullLevel :: "Analyser option \<Rightarrow> real \<Rightarrow> real \<Rightarrow> real" where
  "pullLevel an prev alpha =
     (case an of
        None \<Rightarrow> prev * 0.95
      | Some None \<Rightarrow> prev * 0.95
      | Some (Some d) \<Rightarrow>
          if length d = 0 then prev * 0.95
          else
            let sum = foldl (\<lambda>acc b. acc + real (unat b)) 0 d;
                v = sum / (real (length d) * 255)
            in prev * (1 - alpha) + v * alpha)"

subsection \<open>Morph writes\<close>

definition applyMorph_child :: "string \<Rightarrow> real \<Rightarrow> object3d \<Rightarrow> object3d" where
  "applyMorph_child n v child =
     (if isMesh child then
        (case (morphTargetDictionary child, morphTargetInfluences child) of
           (Some dict, Some infl) \<Rightarrow>
             (case dict_get dict n of
                Some idx \<Rightarrow> child\<lparr> morphTargetInfluences := Some (infl(idx \<mapsto> clamp v 0 1)) \<rparr>
              | None \<Rightarrow> child)
         | _ \<Rightarrow> child)
      else child)"

definition applyMorph :: "string \<Rightarrow> real \<Rightarrow> avatar_state \<Rightarrow> avatar_state" where
  "applyMorph n v s =
     (case avatar s of
        None \<Rightarrow> s
      | Some a \<Rightarrow> s\<lparr> avatar := Some (traverse (applyMorph_child n v) a) \<rparr>)"

text \<open>\<open>influences[idx] || 0\<close>: a key never written reads as 0.\<close>

definition influence_or_0 :: "(property_key \<rightharpoonup> real) \<Rightarrow> property_key \<Rightarrow> real" where
  "influence_or_0 infl idx = (case infl idx of Some c \<Rightarrow> c | None \<Rightarrow> 0)"

definition lerpMorph_child :: "string \<Rightarrow> real \<Rightarrow> real \<Rightarrow> object3d \<Rightarrow> object3d" where
  "lerpMorph_child n to rate child =
     (if isMesh child then
        (case (morphTargetDictionary child, morphTargetInfluences child) of
           (Some dict, Some infl) \<Rightarrow>
             (case dict_get dict n of
                Some idx \<Rightarrow>
                  let cur = influence_or_0 infl idx
                  in child\<lparr> morphTargetInfluences :=
                       Some (infl(idx \<mapsto> lerp cur (clamp to 0 1) rate)) \<rparr>
              | None \<Rightarrow> child)
         | _ \<Rightarrow> child)
      else child)"

definition lerpMorph :: "string \<Rightarrow> real \<Rightarrow> real \<Rightarrow> avatar_state \<Rightarrow> avatar_state" where
  "lerpMorph n to rate s =
     (case avatar s of
        None \<Rightarrow> s
      | Some a \<Rightarrow> s\<lparr> avatar := Some (traverse (lerpMorph_child n to rate) a) \<rparr>)"

subsection \<open>Blinking\<close>

definition scheduleNextBlink :: "frame_env \<Rightarrow> avatar_state \<Rightarrow> avatar_state" where
  "scheduleNextBlink e s = s\<lparr> nextBlinkAt := now e + 2000 + rand e * 4000 \<rparr>"

text \<open>The condition under which \<open>doBlink\<close> starts a blink.\<close>

definition blink_fires :: "frame_env \<Rightarrow> avatar_state \<Rightarrow> bool" where
  "blink_fires e s \<longleftrightarrow> nextBlinkAt s \<le> now e \<and> blinkT s \<le> 0"

text \<open>The triangular envelope computed from the blink progress.\<close>

definition blink_phase :: "real \<Rightarrow> real" where
  "blink_phase bt = 1 - \<bar>1 - max bt 0 * 2\<bar>"

definition doBlink :: "real \<Rightarrow> frame_env \<Rightarrow> avatar_state \<Rightarrow> avatar_state" where
  "doBlink dt e s =
     (let s1 = (if blink_fires e s then scheduleNextBlink e (s\<lparr> blinkT := 1.0 \<rparr>) else s)
      in if blinkT s1 > 0 then
           let s2 = s1\<lparr> blinkT := blinkT s1 - dt * 6 \<rparr>;
               phase = blink_phase (blinkT s2)
           in applyMorph ''eyesClosed'' phase
                (applyMorph ''eyeBlinkRight'' phase
                  (applyMorph ''eyeBlinkLeft'' phase s2))
         else s1)"

subsection \<open>References to nodes\<close>

text \<open>
  \<open>headMesh\<close> and \<open>teethMesh\<close> are references to nodes of the avatar, kept as node
  numbers. A reference that is undefined, or that has no node behind it, is \<open>None\<close>.
\<close>

definition deref :: "avatar_state \<Rightarrow> nat option \<Rightarrow> (nat \<times> object3d) option" where
  "deref s r =
     (case (avatar s, r) of
        (Some a, Some i) \<Rightarrow> (if i < length (nodes a) then Some (i, nodes a ! i) else None)
      | _ \<Rightarrow> None)"

definition write_node :: "nat \<Rightarrow> (object3d \<Rightarrow> object3d) \<Rightarrow> avatar_state \<Rightarrow> avatar_state" where
  "write_node i f s =
     (case avatar s of
        None \<Rightarrow> s
      | Some a \<Rightarrow> s\<lparr> avatar := Some (update_node i f a) \<rparr>)"

subsection \<open>The loader callback of loadAvatar\<close>

definition loadAvatar_loaded :: "scene_graph \<Rightarrow> frame_env \<Rightarrow> avatar_state \<Rightarrow> avatar_state" where
  "loadAvatar_loaded gltf e s =
     (let a = gltf\<lparr> group := (group gltf)\<lparr> position_y := 0 \<rparr> \<rparr>;
          s1 = s\<lparr> avatar := Some a \<rparr>;
          s2 = (case last_index (\<lambda>c. isMesh c \<and> obj_name c = ''Wolf3D_Head'') (nodes a) of
                  Some i \<Rightarrow> s1\<lparr> headMesh := Some i \<rparr>
                | None \<Rightarrow> s1);
          s3 = (case last_index (\<lambda>c. isMesh c \<and> obj_name c = ''Wolf3D_Teeth'') (nodes a) of
                  Some i \<Rightarrow> s2\<lparr> teethMesh := Some i \<rparr>
                | None \<Rightarrow> s2);
          s4 = s3\<lparr> console := console s3 @
                 concat (map (\<lambda>c. if isMesh c then
                                     (case morphTargetDictionary c of
                                        Some dict \<Rightarrow> [LogMorphs (obj_name c) (remdups (map fst dict))]
                                      | None \<Rightarrow> [])
                                   else [])
                             (nodes a)) \<rparr>
      in scheduleNextBlink e s4)"

subsection \<open>The frame: animate\<close>

text \<open>The idle head motion and the listening tilt.\<close>

definition animate_head :: "frame_env \<Rightarrow> avatar_state \<Rightarrow> avatar_state" where
  "animate_head e s =
     (case avatar s of
        None \<Rightarrow> s
      | Some a \<Rightarrow>
          let t = now e * 0.0015
          in (case deref s (headMesh s) of
                None \<Rightarrow> s
              | Some (h, head) \<Rightarrow>
                  write_node h (\<lambda>c. c\<lparr> rotation_y := sin (t * 0.6) * 0.03,
                                        rotation_x := sin (t * 0.4) * 0.02,
                                        rotation_z := lerp (rotation_z c) (inLevel s * 0.1) 0.1 \<rparr>) s))"

text \<open>The ear animation.\<close>

definition animate_ears :: "frame_env \<Rightarrow> avatar_state \<Rightarrow> avatar_state" where
  "animate_ears e s =
     (case avatar s of
        None \<Rightarrow> s
      | Some a \<Rightarrow>
          let earScale = 1 + inLevel s * 0.3;
              wiggle = sin (now e * 0.006) * inLevel s * 0.25;
              L = getObjectByName ''LeftEar'' a;
              R = getObjectByName ''RightEar'' a;
              s1 = (case L of
                      Some l \<Rightarrow> write_node l (\<lambda>c. c\<lparr> scale_xyz := (1, earScale + wiggle, 1),
                                                       rotation_z := inLevel s * 0.1 \<rparr>) s
                    | None \<Rightarrow> s)
          in (case R of
                Some r \<Rightarrow> write_node r (\<lambda>c. c\<lparr> scale_xyz := (1, earScale - wiggle, 1),
                                                 rotation_z := - inLevel s * 0.1 \<rparr>) s1
              | None \<Rightarrow> s1))"

text \<open>The \<open>switch (this._mode)\<close> of \<open>animate\<close>.\<close>

definition mode_logic :: "real \<Rightarrow> frame_env \<Rightarrow> avatar_state \<Rightarrow> avatar_state" where
  "mode_logic dt e s =
     (case mode s of
        Speak \<Rightarrow>
          let mouth = clamp (outLevel s * 3.0) 0 1
          in lerpMorph ''mouthSmile'' mouth 0.15 (applyMorph ''mouthOpen'' mouth s)
      | Whisper \<Rightarrow>
          let mouth = clamp (outLevel s * 1.2) 0 0.4;
              s1 = lerpMorph ''mouthSmile'' 0.15 0.08 (applyMorph ''mouthOpen'' mouth s);
              lean = 0.04 + outLevel s1 * 0.05
          in write_node 0 (\<lambda>c. c\<lparr> position_y := lerp (position_y c) lean 0.08,
                                   rotation_x := lerp (rotation_x c) (- 0.03) 0.08 \<rparr>) s1
      | Dance \<Rightarrow>
          let s1 = s\<lparr> isDancing := True \<rparr>;
              t = now e * 0.001;
              s2 = s1\<lparr> dancePhase := dancePhase s1 + dt \<rparr>;
              s3 = write_node 0 (\<lambda>c. c\<lparr> position_y := sin (t * 4) * 0.05 + 0.02,
                                        rotation_y := sin (t * 2) * 0.25,
                                        rotation_z := sin (t * 3.2) * 0.07 \<rparr>) s2;
              mouth = clamp (outLevel s3 * 2.5) 0 1
          in lerpMorph ''mouthSmile'' (0.25 + outLevel s3 * 0.3) 0.15
               (applyMorph ''mouthOpen'' mouth s3)
      | Idle \<Rightarrow>
          let t = now e * 0.001;
              idleMouth = (sin (t * 0.9) + 1) * 0.05;
              s1 = lerpMorph ''mouthOpen'' idleMouth 0.1 s
          in write_node 0 (\<lambda>c. c\<lparr> position_y := sin (t * 1.2) * 0.015,
                                   rotation_y := sin (t * 0.6) * 0.05,
                                   rotation_x := sin (t * 0.4) * 0.03 \<rparr>) s1)"

text \<open>
  The teeth follow \<open>mouthOpen\<close> of the head. The non-null assertions of the source are
  unchecked at run time: a missing influences array raises a TypeError.
\<close>

definition teeth_follow :: "avatar_state \<Rightarrow> error + avatar_state" where
  "teeth_follow s =
     (case (deref s (teethMesh s), deref s (headMesh s)) of
        (Some (ti, teeth), Some (hi, head)) \<Rightarrow>
          (case (case morphTargetDictionary head of
                   Some dict \<Rightarrow> dict_get dict ''mouthOpen''
                 | None \<Rightarrow> None) of
             Some idx \<Rightarrow>
               (case morphTargetInfluences head of
                  None \<Rightarrow> Inl TypeError
                | Some hinfl \<Rightarrow>
                    let v = influence_or_0 hinfl idx
                    in (case morphTargetInfluences teeth of
                          None \<Rightarrow> Inl TypeError
                        | Some tinfl \<Rightarrow>
                            Inr (write_node ti
                                   (\<lambda>c. c\<lparr> morphTargetInfluences := Some (tinfl(idx \<mapsto> v)) \<rparr>) s)))
           | None \<Rightarrow> Inr s)
      | _ \<Rightarrow> Inr s)"

text \<open>
  One call of \<open>animate\<close>: the state it leaves, and the error that ended it early, if any.
  The next frame was requested before anything else, so the loop goes on either way.
\<close>

definition animate :: "frame_env \<Rightarrow> avatar_state \<Rightarrow> avatar_state \<times> error option" where
  "animate e s =
     (let dt = delta e;
          s1 = s\<lparr> outLevel := pullLevel (outputAnalyser e) (outLevel s) 0.35 \<rparr>;
          s2 = s1\<lparr> inLevel := pullLevel (inputAnalyser e) (inLevel s1) 0.35 \<rparr>;
          s3 = animate_head e s2;
          s4 = lerpMorph ''mouthSmile'' 0 0.12 s3;
          s5 = animate_ears e s4;
          s6 = s5\<lparr> console := console s5 @ [LogMode (mode s5)] \<rparr>;
          s7 = mode_logic dt e s6
      in case teeth_follow s7 of
           Inl err \<Rightarrow> (s7, Some err)
         | Inr s8 \<Rightarrow> (doBlink dt e s8, None))"

text \<open>The frames of the animation loop, one after the other.\<close>

fun animate_frames :: "frame_env list \<Rightarrow> avatar_state \<Rightarrow> avatar_state" where
  "animate_frames [] s = s"
| "animate_frames (e # es) s = animate_frames es (fst (animate e s))"

text \<open>A channel has nothing to average: no analyser, no data, or an empty buffer.\<close>

definition no_data :: "Analyser option \<Rightarrow> bool" where
  "no_data an = (case an of None \<Rightarrow> True | Some None \<Rightarrow> True | Some (Some d) \<Rightarrow> d = [])"

text \<open>The mean magnitude of a buffer, as the specification words it.\<close>

definition mean_magnitude :: "8 word list \<Rightarrow> real" where
  "mean_magnitude d = (\<Sum>b\<leftarrow>d. real (unat b)) / real (length d)"

text \<open>\<open>doBlink\<close> as the successive frames call it, each with its own delta time.\<close>

fun doBlink_frames :: "frame_env list \<Rightarrow> avatar_state \<Rightarrow> avatar_state" where
  "doBlink_frames [] s = s"
| "doBlink_frames (e # es) s = doBlink_frames es (doBlink (delta e) e s)"

subsection \<open>Reading the rig\<close>

text \<open>
  The key and the value of a named morph channel of a node, as the two morph writes find
  them: the node is a mesh with a dictionary and an influences array, and \<open>dict[name]\<close> is
  not \<open>undefined\<close>.
\<close>

definition channel_index :: "object3d \<Rightarrow> string \<Rightarrow> property_key option" where
  "channel_index c n =
     (if isMesh c then
        (case (morphTargetDictionary c, morphTargetInfluences c) of
           (Some dict, Some infl) \<Rightarrow> dict_get dict n
         | _ \<Rightarrow> None)
      else None)"

definition channel_value :: "object3d \<Rightarrow> string \<Rightarrow> real option" where
  "channel_value c n =
     (if isMesh c then
        (case (morphTargetDictionary c, morphTargetInfluences c) of
           (Some dict, Some infl) \<Rightarrow> map_option (influence_or_0 infl) (dict_get dict n)
         | _ \<Rightarrow> None)
      else None)"

definition node_of :: "avatar_state \<Rightarrow> nat \<Rightarrow> object3d option" where
  "node_of s k = map_option snd (deref s (Some k))"

definition morph_index :: "avatar_state \<Rightarrow> nat \<Rightarrow> string \<Rightarrow> property_key option" where
  "morph_index s k n = (case node_of s k of None \<Rightarrow> None | Some c \<Rightarrow> channel_index c n)"

definition morph_value :: "avatar_state \<Rightarrow> nat \<Rightarrow> string \<Rightarrow> real option" where
  "morph_value s k n = (case node_of s k of None \<Rightarrow> None | Some c \<Rightarrow> channel_value c n)"

text \<open>Position-Y, rotation-Y and rotation-Z of a node, and of the avatar group.\<close>

definition node_pose :: "object3d \<Rightarrow> real \<times> real \<times> real" where
  "node_pose c = (position_y c, rotation_y c, rotation_z c)"

definition avatar_pose :: "avatar_state \<Rightarrow> (real \<times> real \<times> real) option" where
  "avatar_pose s = map_option (\<lambda>a. node_pose (group a)) (avatar s)"



text \<open>The state in which a frame reaches the \<open>switch\<close>: everything \<open>animate\<close> does before it.\<close>

definition animate_until_switch :: "frame_env \<Rightarrow> avatar_state \<Rightarrow> avatar_state" where
  "animate_until_switch e s =
     (let s1 = s\<lparr> outLevel := pullLevel (outputAnalyser e) (outLevel s) 0.35 \<rparr>;
          s2 = s1\<lparr> inLevel := pullLevel (inputAnalyser e) (inLevel s1) 0.35 \<rparr>;
          s3 = animate_head e s2;
          s4 = lerpMorph ''mouthSmile'' 0 0.12 s3;
          s5 = animate_ears e s4
      in s5\<lparr> console := console s5 @ [LogMode (mode s5)] \<rparr>)"

text \<open>A frame at time \<open>t\<close> with delta time \<open>dt\<close> and random number \<open>r\<close>, no analyser connected.\<close>

definition silent_frame :: "real \<Rightarrow> real \<Rightarrow> real \<Rightarrow> frame_env" where
  "silent_frame t dt r =
     \<lparr> now = t, delta = dt, rand = r, outputAnalyser = None, inputAnalyser = None \<rparr>"

subsection \<open>A small rig\<close>

text \<open>
  An avatar with a head mesh and a teeth mesh under its group, named as \<open>loadAvatar\<close>
  expects them, all morph influences at 0, and the controller right after loading it.
\<close>

definition example_group :: object3d where
  "example_group =
     \<lparr> obj_name = ''Scene'', isMesh = False, morphTargetDictionary = None,
       morphTargetInfluences = None, position_y = 0, rotation_x = 0, rotation_y = 0,
       rotation_z = 0, scale_xyz = (1, 1, 1) \<rparr>"

definition example_head :: object3d where
  "example_head =
     \<lparr> obj_name = ''Wolf3D_Head'', isMesh = True,
       morphTargetDictionary =
         Some [(''mouthOpen'', 0), (''mouthSmile'', 1), (''eyeBlinkLeft'', 2), (''eyeBlinkRight'', 3)],
       morphTargetInfluences =
         Some [Index 0 \<mapsto> 0, Index 1 \<mapsto> 0, Index 2 \<mapsto> 0, Index 3 \<mapsto> 0],
       position_y = 0, rotation_x = 0, rotation_y = 0, rotation_z = 0, scale_xyz = (1, 1, 1) \<rparr>"

definition example_teeth :: object3d where
  "example_teeth =
     \<lparr> obj_name = ''Wolf3D_Teeth'', isMesh = True,
       morphTargetDictionary = Some [(''mouthOpen'', 0), (''mouthSmile'', 1)],
       morphTargetInfluences = Some [Index 0 \<mapsto> 0, Index 1 \<mapsto> 0],
       position_y = 0, rotation_x = 0, rotation_y = 0, rotation_z = 0, scale_xyz = (1, 1, 1) \<rparr>"

definition example_rig :: scene_graph where
  "example_rig = \<lparr> group = example_group, descendants = [example_head, example_teeth] \<rparr>"

definition example_loaded :: avatar_state where
  "example_loaded = loadAvatar_loaded example_rig (silent_frame 0 0 (1/2)) initial_state"

section \<open>Properties\<close>

subsection \<open>What each operation leaves alone\<close>

lemma applyMorph_fields [simp]:
  "mode (applyMorph n v s) = mode s"
  "outLevel (applyMorph n v s) = outLevel s"
  "inLevel (applyMorph n v s) = inLevel s"
  "nextBlinkAt (applyMorph n v s) = nextBlinkAt s"
  "blinkT (applyMorph n v s) = blinkT s"
  "dancePhase (applyMorph n v s) = dancePhase s"
  "isDancing (applyMorph n v s) = isDancing s"
  "headMesh (applyMorph n v s) = headMesh s"
  "teethMesh (applyMorph n v s) = teethMesh s"
  "console (applyMorph n v s) = console s"
  by (simp_all add: applyMorph_def split: option.splits)

lemma lerpMorph_fields [simp]:
  "mode (lerpMorph n v r s) = mode s"
  "outLevel (lerpMorph n v r s) = outLevel s"
  "inLevel (lerpMorph n v r s) = inLevel s"
  "nextBlinkAt (lerpMorph n v r s) = nextBlinkAt s"
  "blinkT (lerpMorph n v r s) = blinkT s"
  "dancePhase (lerpMorph n v r s) = dancePhase s"
  "isDancing (lerpMorph n v r s) = isDancing s"
  "headMesh (lerpMorph n v r s) = headMesh s"
  "teethMesh (lerpMorph n v r s) = teethMesh s"
  "console (lerpMorph n v r s) = console s"
  by (simp_all add: lerpMorph_def split: option.splits)

lemma write_node_fields [simp]:
  "mode (write_node i f s) = mode s"
  "outLevel (write_node i f s) = outLevel s"
  "inLevel (write_node i f s) = inLevel s"
  "nextBlinkAt (write_node i f s) = nextBlinkAt s"
  "blinkT (write_node i f s) = blinkT s"
  "dancePhase (write_node i f s) = dancePhase s"
  "isDancing (write_node i f s) = isDancing s"
  "headMesh (write_node i f s) = headMesh s"
  "teethMesh (write_node i f s) = teethMesh s"
  "console (write_node i f s) = console s"
  by (simp_all add: write_node_def split: option.splits)

lemma animate_head_fields [simp]:
  "mode (animate_head e s) = mode s"
  "outLevel (animate_head e s) = outLevel s"
  "inLevel (animate_head e s) = inLevel s"
  "nextBlinkAt (animate_head e s) = nextBlinkAt s"
  "blinkT (animate_head e s) = blinkT s"
  "dancePhase (animate_head e s) = dancePhase s"
  "isDancing (animate_head e s) = isDancing s"
  "headMesh (animate_head e s) = headMesh s"
  "teethMesh (animate_head e s) = teethMesh s"
  "console (animate_head e s) = console s"
  by (simp_all add: animate_head_def Let_def split: option.splits prod.splits)

lemma animate_ears_fields [simp]:
  "mode (animate_ears e s) = mode s"
  "outLevel (animate_ears e s) = outLevel s"
  "inLevel (animate_ears e s) = inLevel s"
  "nextBlinkAt (animate_ears e s) = nextBlinkAt s"
  "blinkT (animate_ears e s) = blinkT s"
  "dancePhase (animate_ears e s) = dancePhase s"
  "isDancing (animate_ears e s) = isDancing s"
  "headMesh (animate_ears e s) = headMesh s"
  "teethMesh (animate_ears e s) = teethMesh s"
  "console (animate_ears e s) = console s"
  by (simp_all add: animate_ears_def Let_def split: option.splits)

lemma mode_logic_fields [simp]:
  "mode (mode_logic dt e s) = mode s"
  "outLevel (mode_logic dt e s) = outLevel s"
  "inLevel (mode_logic dt e s) = inLevel s"
  "nextBlinkAt (mode_logic dt e s) = nextBlinkAt s"
  "blinkT (mode_logic dt e s) = blinkT s"
  "headMesh (mode_logic dt e s) = headMesh s"
  "teethMesh (mode_logic dt e s) = teethMesh s"
  "console (mode_logic dt e s) = console s"
  by (simp_all add: mode_logic_def Let_def split: AvatarMode.splits)

lemma mode_logic_dancePhase:
  "dancePhase (mode_logic dt e s) = (if mode s = Dance then dancePhase s + dt else dancePhase s)"
  by (simp add: mode_logic_def Let_def split: AvatarMode.splits)

lemma mode_logic_isDancing:
  "isDancing (mode_logic dt e s) = (if mode s = Dance then True else isDancing s)"
  by (simp add: mode_logic_def Let_def split: AvatarMode.splits)

lemma teeth_follow_fields:
  assumes "teeth_follow s = Inr s'"
  shows "mode s' = mode s" "outLevel s' = outLevel s" "inLevel s' = inLevel s"
    "nextBlinkAt s' = nextBlinkAt s" "blinkT s' = blinkT s" "dancePhase s' = dancePhase s"
    "isDancing s' = isDancing s" "headMesh s' = headMesh s" "teethMesh s' = teethMesh s"
    "console s' = console s"
  using assms
  by (auto simp: teeth_follow_def Let_def split: option.splits prod.splits)

lemma doBlink_fields [simp]:
  "mode (doBlink dt e s) = mode s"
  "outLevel (doBlink dt e s) = outLevel s"
  "inLevel (doBlink dt e s) = inLevel s"
  "dancePhase (doBlink dt e s) = dancePhase s"
  "isDancing (doBlink dt e s) = isDancing s"
  "headMesh (doBlink dt e s) = headMesh s"
  "teethMesh (doBlink dt e s) = teethMesh s"
  "console (doBlink dt e s) = console s"
  by (simp_all add: doBlink_def scheduleNextBlink_def Let_def)

lemma animate_outLevel:
  "outLevel (fst (animate e s)) = pullLevel (outputAnalyser e) (outLevel s) 0.35"
  by (simp add: animate_def Let_def teeth_follow_fields split: sum.splits)

lemma animate_inLevel:
  "inLevel (fst (animate e s)) = pullLevel (inputAnalyser e) (inLevel s) 0.35"
  by (simp add: animate_def Let_def teeth_follow_fields split: sum.splits)

subsection \<open>Loudness: the moving average and the decay\<close>

lemma foldl_magnitudes:
  "foldl (\<lambda>acc b. acc + real (unat b)) a d = a + (\<Sum>b\<leftarrow>d. real (unat b))"
  by (induction d arbitrary: a) (simp_all del: of_nat_unat)

lemma sum_magnitudes_bounds:
  fixes d :: "8 word list"
  shows "0 \<le> (\<Sum>b\<leftarrow>d. real (unat b))" and "(\<Sum>b\<leftarrow>d. real (unat b)) \<le> 255 * real (length d)"
proof -
  show "0 \<le> (\<Sum>b\<leftarrow>d. real (unat b))"
    by (induction d) (simp_all del: of_nat_unat)
  have byte: "real (unat b) \<le> 255" for b :: "8 word"
  proof -
    have "unat b < 2 ^ 8" using unsigned_less [of b] by simp
    then show ?thesis by (simp del: of_nat_unat)
  qed
  show "(\<Sum>b\<leftarrow>d. real (unat b)) \<le> 255 * real (length d)"
  proof (induction d)
    case Nil
    show ?case by simp
  next
    case (Cons b d)
    from byte [of b] Cons show ?case by (simp add: algebra_simps del: of_nat_unat)
  qed
qed

lemma pullLevel_no_data: "no_data an \<Longrightarrow> pullLevel an p a = p * 0.95"
  by (auto simp: no_data_def pullLevel_def split: option.splits)

lemma pullLevel_data:
  "d \<noteq> [] \<Longrightarrow> pullLevel (Some (Some d)) p a = p * (1 - a) + (mean_magnitude d / 255) * a"
  by (simp add: pullLevel_def Let_def foldl_magnitudes mean_magnitude_def del: of_nat_unat)

lemma pullLevel_unit_interval:
  assumes "0 \<le> p" "p \<le> 1"
  shows "0 \<le> pullLevel an p 0.35 \<and> pullLevel an p 0.35 \<le> 1"
proof (cases "no_data an")
  case True
  with assms show ?thesis by (simp add: pullLevel_no_data)
next
  case False
  then obtain d where an: "an = Some (Some d)" and d: "d \<noteq> []"
    by (auto simp: no_data_def split: option.splits)
  define v where "v = mean_magnitude d / 255"
  have len: "0 < real (length d)" using d by simp
  have v0: "0 \<le> v"
    unfolding v_def mean_magnitude_def using sum_magnitudes_bounds(1) [of d]
    by (simp del: of_nat_unat)
  have "mean_magnitude d \<le> 255"
    unfolding mean_magnitude_def using sum_magnitudes_bounds(2) [of d] len
    by (simp add: pos_divide_le_eq del: of_nat_unat)
  then have v1: "v \<le> 1" by (simp add: v_def)
  have eq: "pullLevel an p 0.35 = p * (1 - 0.35) + v * 0.35"
    using pullLevel_data [OF d] by (simp add: an v_def)
  from assms v0 v1 show ?thesis unfolding eq by simp
qed

lemma animate_frames_outLevel_decay:
  "\<forall>e \<in> set es. no_data (outputAnalyser e) \<Longrightarrow>
   outLevel (animate_frames es s) = outLevel s * 0.95 ^ length es"
  by (induction es arbitrary: s) (simp_all add: animate_outLevel pullLevel_no_data)

lemma animate_frames_inLevel_decay:
  "\<forall>e \<in> set es. no_data (inputAnalyser e) \<Longrightarrow>
   inLevel (animate_frames es s) = inLevel s * 0.95 ^ length es"
  by (induction es arbitrary: s) (simp_all add: animate_inLevel pullLevel_no_data)

lemma animate_levels_unit_interval:
  assumes "0 \<le> outLevel s" "outLevel s \<le> 1" "0 \<le> inLevel s" "inLevel s \<le> 1"
  shows "0 \<le> outLevel (fst (animate e s)) \<and> outLevel (fst (animate e s)) \<le> 1 \<and>
         0 \<le> inLevel (fst (animate e s)) \<and> inLevel (fst (animate e s)) \<le> 1"
  using pullLevel_unit_interval [OF assms(1,2)] pullLevel_unit_interval [OF assms(3,4)]
  by (simp add: animate_outLevel animate_inLevel)

text \<open>
  C3. A loudness update with a non-empty buffer \<open>d\<close> and previous level \<open>p\<close> gives
  \<open>p \<sqdot> (1 - 0.35) + (mean d / 255) \<sqdot> 0.35\<close>; with no analyser, no data or an empty buffer
  it gives \<open>p \<sqdot> 0.95\<close>; and after \<open>N\<close> consecutive frames without data the level of either
  channel is the initial level times \<open>0.95 ^ N\<close>. The update is a total function: it has
  no failing branch.
\<close>

theorem pullLevel_ema_and_decay:
  "(d \<noteq> [] \<longrightarrow>
      pullLevel (Some (Some d)) p 0.35 = p * (1 - 0.35) + (mean_magnitude d / 255) * 0.35) \<and>
   pullLevel None p 0.35 = p * 0.95 \<and>
   pullLevel (Some None) p 0.35 = p * 0.95 \<and>
   pullLevel (Some (Some [])) p 0.35 = p * 0.95 \<and>
   ((\<forall>e \<in> set es. no_data (outputAnalyser e)) \<longrightarrow>
      outLevel (animate_frames es s) = outLevel s * 0.95 ^ length es) \<and>
   ((\<forall>e \<in> set es. no_data (inputAnalyser e)) \<longrightarrow>
      inLevel (animate_frames es s) = inLevel s * 0.95 ^ length es)"
  using pullLevel_data [of d p "0.35"] animate_frames_outLevel_decay [of es s]
    animate_frames_inLevel_decay [of es s]
  by (simp add: pullLevel_no_data no_data_def)

theorem pullLevel_ema_and_decay_witness:
  "[255, 0 :: 8 word] \<noteq> [] \<and>
   pullLevel (Some (Some [255, 0])) 1 0.35 = 0.825 \<and>
   no_data None \<and> no_data (Some None) \<and> no_data (Some (Some [])) \<and>
   outLevel (animate_frames
     [\<lparr> now = 0, delta = 0, rand = 1/2, outputAnalyser = None, inputAnalyser = Some (Some []) \<rparr>,
      \<lparr> now = 16, delta = 0.016, rand = 1/2, outputAnalyser = Some None, inputAnalyser = None \<rparr>]
     (initial_state\<lparr> outLevel := 1 \<rparr>)) = 0.9025"
  using pullLevel_ema_and_decay [of "[255, 0]" 1
      "[\<lparr> now = 0, delta = 0, rand = 1/2, outputAnalyser = None, inputAnalyser = Some (Some []) \<rparr>,
        \<lparr> now = 16, delta = 0.016, rand = 1/2, outputAnalyser = Some None, inputAnalyser = None \<rparr>]"
      "initial_state\<lparr> outLevel := 1 \<rparr>"]
  by (simp add: mean_magnitude_def no_data_def power2_eq_square del: animate_frames.simps)

text \<open>
  C4. Starting from levels in \<open>[0, 1]\<close>, both smoothed levels are in \<open>[0, 1]\<close> after every
  sequence of frames, whatever the analysers deliver.
\<close>

theorem levels_stay_in_unit_interval:
  "0 \<le> outLevel s \<and> outLevel s \<le> 1 \<and> 0 \<le> inLevel s \<and> inLevel s \<le> 1 \<Longrightarrow>
   0 \<le> outLevel (animate_frames es s) \<and> outLevel (animate_frames es s) \<le> 1 \<and>
   0 \<le> inLevel (animate_frames es s) \<and> inLevel (animate_frames es s) \<le> 1"
proof (induction es arbitrary: s)
  case Nil
  then show ?case by simp
next
  case (Cons e es)
  have "0 \<le> outLevel (fst (animate e s)) \<and> outLevel (fst (animate e s)) \<le> 1 \<and>
        0 \<le> inLevel (fst (animate e s)) \<and> inLevel (fst (animate e s)) \<le> 1"
    using Cons.prems by (intro animate_levels_unit_interval) simp_all
  from Cons.IH [OF this] show ?case by simp
qed

theorem levels_stay_in_unit_interval_witness:
  "0 \<le> outLevel initial_state \<and> outLevel initial_state \<le> 1 \<and>
   0 \<le> inLevel initial_state \<and> inLevel initial_state \<le> 1 \<and>
   0 \<le> outLevel (animate_frames
          [\<lparr> now = 0, delta = 0, rand = 1/2, outputAnalyser = Some (Some [255, 255]), inputAnalyser = None \<rparr>]
          initial_state) \<and>
   outLevel (animate_frames
          [\<lparr> now = 0, delta = 0, rand = 1/2, outputAnalyser = Some (Some [255, 255]), inputAnalyser = None \<rparr>]
          initial_state) \<le> 1"
  using levels_stay_in_unit_interval [of initial_state
      "[\<lparr> now = 0, delta = 0, rand = 1/2, outputAnalyser = Some (Some [255, 255]), inputAnalyser = None \<rparr>]"]
  by (simp add: initial_state_def del: animate_frames.simps)

text \<open>
  C10. \<open>stopDance\<close> always clears the dancing flag and sets the mode to Idle only when it
  was Dance; \<open>goIdle\<close> sets the mode to Idle and clears the flag from any mode.
\<close>

theorem stopDance_versus_goIdle:
  "isDancing (stopDance s) = False \<and>
   mode (stopDance s) = (if mode s = Dance then Idle else mode s) \<and>
   stopDance s = s\<lparr> isDancing := False, mode := mode (stopDance s) \<rparr> \<and>
   mode (goIdle s) = Idle \<and> isDancing (goIdle s) = False \<and>
   goIdle s = s\<lparr> mode := Idle, isDancing := False \<rparr>"
  by (simp add: stopDance_def goIdle_def Let_def)

theorem stopDance_versus_goIdle_witness:
  "mode (stopDance (initial_state\<lparr> mode := Speak, isDancing := True \<rparr>)) = Speak \<and>
   isDancing (stopDance (initial_state\<lparr> mode := Speak, isDancing := True \<rparr>)) = False \<and>
   mode (goIdle (initial_state\<lparr> mode := Speak, isDancing := True \<rparr>)) = Idle"
  using stopDance_versus_goIdle [of "initial_state\<lparr> mode := Speak, isDancing := True \<rparr>"]
  by simp

subsection \<open>Blinking\<close>

lemma blink_phase_range: "b \<le> 1 \<Longrightarrow> 0 \<le> blink_phase b \<and> blink_phase b \<le> 1"
  by (simp add: blink_phase_def max_def abs_if)

lemma blink_phase_midpoint: "blink_phase (1/2) = 1"
  by (simp add: blink_phase_def)

lemma blink_phase_end: "b \<le> 0 \<Longrightarrow> blink_phase b = 0"
  by (simp add: blink_phase_def max_def)

lemma doBlink_blinkT:
  "blinkT (doBlink dt e s) =
     (if blink_fires e s then 1 - dt * 6
      else if 0 < blinkT s then blinkT s - dt * 6 else blinkT s)"
  by (simp add: doBlink_def scheduleNextBlink_def Let_def)

lemma doBlink_nextBlinkAt:
  "nextBlinkAt (doBlink dt e s) =
     (if blink_fires e s then now e + 2000 + rand e * 4000 else nextBlinkAt s)"
  by (simp add: doBlink_def scheduleNextBlink_def Let_def)

lemma doBlink_active:
  "0 < blinkT s \<Longrightarrow>
   doBlink dt e s =
     applyMorph ''eyesClosed'' (blink_phase (blinkT s - dt * 6))
       (applyMorph ''eyeBlinkRight'' (blink_phase (blinkT s - dt * 6))
         (applyMorph ''eyeBlinkLeft'' (blink_phase (blinkT s - dt * 6))
           (s\<lparr> blinkT := blinkT s - dt * 6 \<rparr>)))"
  by (simp add: doBlink_def blink_fires_def Let_def)

lemma doBlink_waiting: "blinkT s \<le> 0 \<Longrightarrow> \<not> blink_fires e s \<Longrightarrow> doBlink dt e s = s"
  by (simp add: doBlink_def Let_def)

lemma animate_blinkT:
  "blinkT (fst (animate e s)) =
     (if snd (animate e s) = None then blinkT (doBlink (delta e) e s) else blinkT s)"
  by (simp add: animate_def Let_def teeth_follow_fields doBlink_blinkT blink_fires_def
      split: sum.splits)


lemma animate_dancePhase:
  "dancePhase (fst (animate e s)) =
     (if mode s = Dance then dancePhase s + delta e else dancePhase s)"
  by (simp add: animate_def Let_def teeth_follow_fields mode_logic_dancePhase
      split: sum.splits)

lemma animate_mode: "mode (fst (animate e s)) = mode s"
  by (simp add: animate_def Let_def teeth_follow_fields split: sum.splits)

lemma doBlink_blinkT_le_1: "blinkT s \<le> 1 \<Longrightarrow> 0 \<le> dt \<Longrightarrow> blinkT (doBlink dt e s) \<le> 1"
  by (simp add: doBlink_blinkT)

lemma animate_frames_blinkT_le_1:
  "blinkT s \<le> 1 \<Longrightarrow> \<forall>e \<in> set es. 0 \<le> delta e \<Longrightarrow> blinkT (animate_frames es s) \<le> 1"
proof (induction es arbitrary: s)
  case Nil
  then show ?case by simp
next
  case (Cons e es)
  have "blinkT (fst (animate e s)) \<le> 1"
    using Cons.prems by (simp add: animate_blinkT doBlink_blinkT_le_1)
  with Cons show ?case by simp
qed

text \<open>
  While no frame starts a new blink, the progress of a blink falls by six times the
  elapsed time until it is spent.
\<close>

lemma doBlink_frames_progress:
  "\<forall>e \<in> set es. 0 \<le> delta e \<and> now e < nextBlinkAt s \<Longrightarrow>
   blinkT (doBlink_frames es s) \<le> max 0 (blinkT s - 6 * (\<Sum>e\<leftarrow>es. delta e)) \<and>
   nextBlinkAt (doBlink_frames es s) = nextBlinkAt s"
proof (induction es arbitrary: s)
  case Nil
  then show ?case by simp
next
  case (Cons e es)
  let ?s1 = "doBlink (delta e) e s"
  have nofire: "\<not> blink_fires e s"
    using Cons.prems by (simp add: blink_fires_def)
  have nb: "nextBlinkAt ?s1 = nextBlinkAt s"
    using nofire by (simp add: doBlink_nextBlinkAt)
  have bt: "blinkT ?s1 = (if 0 < blinkT s then blinkT s - delta e * 6 else blinkT s)"
    using nofire by (simp add: doBlink_blinkT)
  have rest: "\<forall>e' \<in> set es. 0 \<le> delta e' \<and> now e' < nextBlinkAt ?s1"
    using Cons.prems nb by simp
  have sum0: "0 \<le> (\<Sum>e\<leftarrow>es. delta e)"
    using Cons.prems by (intro sum_list_nonneg) auto
  have d0: "0 \<le> delta e" using Cons.prems by simp
  from Cons.IH [OF rest]
  have ih: "blinkT (doBlink_frames es ?s1) \<le> max 0 (blinkT ?s1 - 6 * (\<Sum>e\<leftarrow>es. delta e))"
    and ihn: "nextBlinkAt (doBlink_frames es ?s1) = nextBlinkAt ?s1"
    by simp_all
  have "max 0 (blinkT ?s1 - 6 * (\<Sum>e\<leftarrow>es. delta e))
          \<le> max 0 (blinkT s - 6 * (delta e + (\<Sum>e\<leftarrow>es. delta e)))"
    using sum0 d0 by (simp add: bt max_def)
  with ih ihn nb show ?case by simp
qed


text \<open>
  C6. With the progress of a blink falling by \<open>dt \<times> 6\<close> per frame and frames of
  non-negative \<open>dt\<close>, the progress never exceeds 1, so the envelope
  \<open>1 - |1 - 2 \<sqdot> max(progress, 0)|\<close> is never negative; it is exactly 1 at progress 0.5
  and 0 once the progress is at or below 0, which it is after frames that add up to a sixth
  of a second; and a state with progress at or below 0 is waiting: \<open>doBlink\<close> leaves it as
  it is until the next blink fires.
\<close>

theorem blink_envelope:
  "(blinkT s \<le> 1 \<and> (\<forall>e \<in> set es. 0 \<le> delta e) \<longrightarrow>
      blinkT (animate_frames es s) \<le> 1 \<and>
      0 \<le> blink_phase (blinkT (animate_frames es s))) \<and>
   (0 < blinkT s \<longrightarrow>
      blinkT (doBlink dt e s) = blinkT s - dt * 6 \<and>
      doBlink dt e s =
        applyMorph ''eyesClosed'' (blink_phase (blinkT s - dt * 6))
          (applyMorph ''eyeBlinkRight'' (blink_phase (blinkT s - dt * 6))
            (applyMorph ''eyeBlinkLeft'' (blink_phase (blinkT s - dt * 6))
              (s\<lparr> blinkT := blinkT s - dt * 6 \<rparr>)))) \<and>
   blink_phase (1/2) = 1 \<and>
   (b \<le> 0 \<longrightarrow> blink_phase b = 0) \<and>
   (blinkT s \<le> 1 \<and> (\<forall>e \<in> set es. 0 \<le> delta e \<and> now e < nextBlinkAt s) \<and>
    1/6 \<le> (\<Sum>e\<leftarrow>es. delta e) \<longrightarrow>
      blinkT (doBlink_frames es s) \<le> 0 \<and> blink_phase (blinkT (doBlink_frames es s)) = 0) \<and>
   (blinkT s \<le> 0 \<and> \<not> blink_fires e s \<longrightarrow> doBlink dt e s = s)"
proof (intro conjI impI)
  assume a: "blinkT s \<le> 1 \<and> (\<forall>e \<in> set es. 0 \<le> delta e)"
  then show le1: "blinkT (animate_frames es s) \<le> 1"
    by (simp add: animate_frames_blinkT_le_1)
  then show "0 \<le> blink_phase (blinkT (animate_frames es s))"
    using blink_phase_range by blast
next
  assume "0 < blinkT s"
  then show "blinkT (doBlink dt e s) = blinkT s - dt * 6"
    by (simp add: doBlink_blinkT blink_fires_def)
next
  assume "0 < blinkT s"
  then show "doBlink dt e s =
        applyMorph ''eyesClosed'' (blink_phase (blinkT s - dt * 6))
          (applyMorph ''eyeBlinkRight'' (blink_phase (blinkT s - dt * 6))
            (applyMorph ''eyeBlinkLeft'' (blink_phase (blinkT s - dt * 6))
              (s\<lparr> blinkT := blinkT s - dt * 6 \<rparr>)))"
    by (rule doBlink_active)
next
  show "blink_phase (1/2) = 1" by (rule blink_phase_midpoint)
next
  assume "b \<le> 0"
  then show "blink_phase b = 0" by (rule blink_phase_end)
next
  assume a: "blinkT s \<le> 1 \<and> (\<forall>e \<in> set es. 0 \<le> delta e \<and> now e < nextBlinkAt s) \<and>
    1/6 \<le> (\<Sum>e\<leftarrow>es. delta e)"
  then have "blinkT (doBlink_frames es s) \<le> max 0 (blinkT s - 6 * (\<Sum>e\<leftarrow>es. delta e))"
    using doBlink_frames_progress [of es s] by blast
  moreover have "blinkT s - 6 * (\<Sum>e\<leftarrow>es. delta e) \<le> 0"
    using a by simp
  ultimately show spent: "blinkT (doBlink_frames es s) \<le> 0" by simp
  then show "blink_phase (blinkT (doBlink_frames es s)) = 0" by (rule blink_phase_end)
next
  assume "blinkT s \<le> 0 \<and> \<not> blink_fires e s"
  then show "doBlink dt e s = s" by (simp add: doBlink_waiting)
qed

theorem blink_envelope_witness:
  "blinkT (initial_state\<lparr> blinkT := 1, nextBlinkAt := 5000 \<rparr>) \<le> 1 \<and>
   0 \<le> delta \<lparr> now = 100, delta = 1/12, rand = 1/2, outputAnalyser = None, inputAnalyser = None \<rparr> \<and>
   now \<lparr> now = 100, delta = 1/12, rand = 1/2, outputAnalyser = None, inputAnalyser = None \<rparr>
     < nextBlinkAt (initial_state\<lparr> blinkT := 1, nextBlinkAt := 5000 \<rparr>) \<and>
   0 < blinkT (initial_state\<lparr> blinkT := 1, nextBlinkAt := 5000 \<rparr>) \<and>
   blinkT (doBlink (1/12)
      \<lparr> now = 100, delta = 1/12, rand = 1/2, outputAnalyser = None, inputAnalyser = None \<rparr>
      (initial_state\<lparr> blinkT := 1, nextBlinkAt := 5000 \<rparr>)) = 1/2 \<and>
   blinkT (doBlink_frames
      [\<lparr> now = 100, delta = 1/12, rand = 1/2, outputAnalyser = None, inputAnalyser = None \<rparr>,
       \<lparr> now = 100, delta = 1/12, rand = 1/2, outputAnalyser = None, inputAnalyser = None \<rparr>]
      (initial_state\<lparr> blinkT := 1, nextBlinkAt := 5000 \<rparr>)) \<le> 0 \<and>
   blinkT (animate_frames
      [\<lparr> now = 100, delta = 1/12, rand = 1/2, outputAnalyser = None, inputAnalyser = None \<rparr>,
       \<lparr> now = 100, delta = 1/12, rand = 1/2, outputAnalyser = None, inputAnalyser = None \<rparr>]
      (initial_state\<lparr> blinkT := 1, nextBlinkAt := 5000 \<rparr>)) \<le> 1 \<and>
   blinkT (initial_state\<lparr> blinkT := 0, nextBlinkAt := 5000 \<rparr>) \<le> 0 \<and>
   doBlink (1/12)
      \<lparr> now = 100, delta = 1/12, rand = 1/2, outputAnalyser = None, inputAnalyser = None \<rparr>
      (initial_state\<lparr> blinkT := 0, nextBlinkAt := 5000 \<rparr>)
     = initial_state\<lparr> blinkT := 0, nextBlinkAt := 5000 \<rparr>"
  using blink_envelope [of "initial_state\<lparr> blinkT := 1, nextBlinkAt := 5000 \<rparr>"
      "[\<lparr> now = 100, delta = 1/12, rand = 1/2, outputAnalyser = None, inputAnalyser = None \<rparr>,
        \<lparr> now = 100, delta = 1/12, rand = 1/2, outputAnalyser = None, inputAnalyser = None \<rparr>]"
      "1/12"
      "\<lparr> now = 100, delta = 1/12, rand = 1/2, outputAnalyser = None, inputAnalyser = None \<rparr>" 0]
    blink_envelope [of "initial_state\<lparr> blinkT := 0, nextBlinkAt := 5000 \<rparr>" "[]" "1/12"
      "\<lparr> now = 100, delta = 1/12, rand = 1/2, outputAnalyser = None, inputAnalyser = None \<rparr>" 0]
  by (simp add: initial_state_def blink_fires_def
      del: animate_frames.simps doBlink_frames.simps)


lemma silent_frame_fields [simp]:
  "now (silent_frame t dt r) = t" "delta (silent_frame t dt r) = dt"
  "rand (silent_frame t dt r) = r" "outputAnalyser (silent_frame t dt r) = None"
  "inputAnalyser (silent_frame t dt r) = None"
  by (simp_all add: silent_frame_def)

subsection \<open>Before the avatar is loaded\<close>

lemma applyMorph_not_loaded: "avatar s = None \<Longrightarrow> applyMorph n v s = s"
  by (simp add: applyMorph_def)

lemma lerpMorph_not_loaded: "avatar s = None \<Longrightarrow> lerpMorph n v r s = s"
  by (simp add: lerpMorph_def)

lemma write_node_not_loaded: "avatar s = None \<Longrightarrow> write_node i f s = s"
  by (simp add: write_node_def)

lemma animate_head_not_loaded: "avatar s = None \<Longrightarrow> animate_head e s = s"
  by (simp add: animate_head_def)

lemma animate_ears_not_loaded: "avatar s = None \<Longrightarrow> animate_ears e s = s"
  by (simp add: animate_ears_def)

lemma mode_logic_not_loaded: "avatar s = None \<Longrightarrow> avatar (mode_logic dt e s) = None"
  by (cases "mode s")
    (simp_all add: mode_logic_def Let_def applyMorph_not_loaded lerpMorph_not_loaded
      write_node_not_loaded)

lemma teeth_follow_not_loaded: "avatar s = None \<Longrightarrow> teeth_follow s = Inr s"
  by (simp add: teeth_follow_def deref_def)

lemma doBlink_not_loaded: "avatar s = None \<Longrightarrow> avatar (doBlink dt e s) = None"
  by (simp add: doBlink_def Let_def scheduleNextBlink_def applyMorph_not_loaded)

lemma animate_not_loaded:
  assumes "avatar s = None"
  shows "snd (animate e s) = None \<and> avatar (fst (animate e s)) = None"
proof -
  let ?s2 = "s\<lparr> outLevel := pullLevel (outputAnalyser e) (outLevel s) 0.35,
                 inLevel := pullLevel (inputAnalyser e) (inLevel s) 0.35 \<rparr>"
  let ?s6 = "?s2\<lparr> console := console ?s2 @ [LogMode (mode ?s2)] \<rparr>"
  have a2: "avatar ?s2 = None" using assms by simp
  have a6: "avatar ?s6 = None" using assms by simp
  have pre: "animate_ears e (lerpMorph ''mouthSmile'' 0 0.12 (animate_head e ?s2)) = ?s2"
    using a2 by (simp add: animate_head_not_loaded lerpMorph_not_loaded animate_ears_not_loaded)
  have a7: "avatar (mode_logic (delta e) e ?s6) = None"
    using a6 by (rule mode_logic_not_loaded)
  have tf: "teeth_follow (mode_logic (delta e) e ?s6) = Inr (mode_logic (delta e) e ?s6)"
    using a7 by (rule teeth_follow_not_loaded)
  have "animate e s = (doBlink (delta e) e (mode_logic (delta e) e ?s6), None)"
    unfolding animate_def Let_def using pre tf by simp
  then show ?thesis using a7 by (simp add: doBlink_not_loaded)
qed



text \<open>
  C8, as the code has it. The delta time of the clock is used as it is, with no clamp,
  whatever its sign: a frame in Dance mode adds it to the dance phase, and a frame that
  reaches \<open>doBlink\<close> takes six times it from the progress of the blink that is starting
  or in progress.
\<close>

theorem delta_time_used_unclamped:
  "dancePhase (fst (animate e s)) =
     (if mode s = Dance then dancePhase s + delta e else dancePhase s) \<and>
   (snd (animate e s) = None \<longrightarrow>
      blinkT (fst (animate e s)) =
        (if blink_fires e s then 1 - delta e * 6
         else if 0 < blinkT s then blinkT s - delta e * 6 else blinkT s))"
  by (simp add: animate_dancePhase animate_blinkT doBlink_blinkT)

theorem delta_time_used_unclamped_witness:
  "snd (animate (silent_frame 100 (1/60) (1/2)) (startDance initial_state)) = None \<and>
   dancePhase (fst (animate (silent_frame 100 (1/60) (1/2)) (startDance initial_state))) = 1/60 \<and>
   blinkT (fst (animate (silent_frame 100 (1/60) (1/2)) (startDance initial_state))) = 9/10"
  using delta_time_used_unclamped [of "silent_frame 100 (1/60) (1/2)" "startDance initial_state"]
    animate_not_loaded [of "startDance initial_state" "silent_frame 100 (1/60) (1/2)"]
  by (simp add: initial_state_def startDance_def blink_fires_def)

theorem delta_time_clamp_counterexample:
  "blinkT (fst (animate (silent_frame 100 0 (1/2)) (startDance initial_state))) = 1 \<and>
   dancePhase (fst (animate (silent_frame 100 0 (1/2)) (startDance initial_state))) = 0 \<and>
   blinkT (fst (animate (silent_frame 100 (- 1) (1/2)) (startDance initial_state))) = 7 \<and>
   dancePhase (fst (animate (silent_frame 100 (- 1) (1/2)) (startDance initial_state))) = - 1"
proof -
  let ?s = "startDance initial_state"
  have a: "avatar ?s = None" by (simp add: startDance_def initial_state_def)
  have m: "mode ?s = Dance" "dancePhase ?s = 0" by (simp_all add: startDance_def initial_state_def)
  have f: "blink_fires (silent_frame 100 dt (1/2)) ?s" for dt
    by (simp add: blink_fires_def startDance_def initial_state_def)
  have ok: "snd (animate (silent_frame 100 dt (1/2)) ?s) = None" for dt
    using animate_not_loaded [OF a] by simp
  show ?thesis
    by (simp add: animate_dancePhase animate_blinkT doBlink_blinkT f ok m)
qed

subsection \<open>Nodes and channels under the morph writes\<close>

lemma nodes_traverse: "nodes (traverse f a) = map f (nodes a)"
  by (simp add: nodes_def traverse_def)

lemma nodes_update_node: "nodes (update_node i f a) = (nodes a)[i := f (nodes a ! i)]"
  by (cases i) (simp_all add: nodes_def update_node_def)


lemma node_of_eq:
  "node_of s k =
     (case avatar s of
        None \<Rightarrow> None
      | Some a \<Rightarrow> if k < length (nodes a) then Some (nodes a ! k) else None)"
  by (simp add: node_of_def deref_def split: option.splits)

lemma node_of_applyMorph:
  "node_of (applyMorph n v s) k = map_option (applyMorph_child n v) (node_of s k)"
  by (auto simp: node_of_eq applyMorph_def nodes_traverse split: option.splits)

lemma node_of_lerpMorph:
  "node_of (lerpMorph n v r s) k = map_option (lerpMorph_child n v r) (node_of s k)"
  by (auto simp: node_of_eq lerpMorph_def nodes_traverse split: option.splits)

lemma node_of_write_node:
  "node_of (write_node i f s) k = (if k = i then map_option f (node_of s k) else node_of s k)"
  by (auto simp: node_of_eq write_node_def nodes_update_node split: option.splits)

lemma channel_index_applyMorph_child [simp]:
  "channel_index (applyMorph_child n v c) n' = channel_index c n'"
  by (simp add: channel_index_def applyMorph_child_def split: option.splits)

lemma channel_index_lerpMorph_child [simp]:
  "channel_index (lerpMorph_child n v r c) n' = channel_index c n'"
  by (simp add: channel_index_def lerpMorph_child_def Let_def split: option.splits)

lemma channel_value_applyMorph_child:
  "channel_value (applyMorph_child n v c) n' =
     (if channel_index c n = channel_index c n'
      then map_option (\<lambda>_. clamp v 0 1) (channel_value c n')
      else channel_value c n')"
  by (auto simp: channel_value_def channel_index_def applyMorph_child_def influence_or_0_def
      split: option.splits)

lemma channel_value_lerpMorph_child:
  "channel_value (lerpMorph_child n v r c) n' =
     (if channel_index c n = channel_index c n'
      then map_option (\<lambda>cur. lerp cur (clamp v 0 1) r) (channel_value c n')
      else channel_value c n')"
  by (auto simp: channel_value_def channel_index_def lerpMorph_child_def influence_or_0_def
      Let_def split: option.splits)



lemma morph_index_applyMorph [simp]: "morph_index (applyMorph n v s) k n' = morph_index s k n'"
  by (simp add: morph_index_def node_of_applyMorph split: option.splits)

lemma morph_index_lerpMorph [simp]: "morph_index (lerpMorph n v r s) k n' = morph_index s k n'"
  by (simp add: morph_index_def node_of_lerpMorph split: option.splits)

lemma morph_value_applyMorph:
  "morph_value (applyMorph n v s) k n' =
     (if morph_index s k n = morph_index s k n'
      then map_option (\<lambda>_. clamp v 0 1) (morph_value s k n')
      else morph_value s k n')"
  by (simp add: morph_value_def morph_index_def node_of_applyMorph
      channel_value_applyMorph_child split: option.splits)

lemma morph_value_lerpMorph:
  "morph_value (lerpMorph n v r s) k n' =
     (if morph_index s k n = morph_index s k n'
      then map_option (\<lambda>cur. lerp cur (clamp v 0 1) r) (morph_value s k n')
      else morph_value s k n')"
  by (simp add: morph_value_def morph_index_def node_of_lerpMorph
      channel_value_lerpMorph_child split: option.splits)

lemma morph_write_node:
  assumes "\<And>c n. channel_index (f c) n = channel_index c n"
    and "\<And>c n. channel_value (f c) n = channel_value c n"
  shows "morph_index (write_node i f s) k n = morph_index s k n"
    and "morph_value (write_node i f s) k n = morph_value s k n"
  using assms
  by (simp_all add: morph_index_def morph_value_def node_of_write_node split: option.splits)

lemma morph_write_other_node:
  "k \<noteq> i \<Longrightarrow> morph_index (write_node i f s) k n = morph_index s k n"
  "k \<noteq> i \<Longrightarrow> morph_value (write_node i f s) k n = morph_value s k n"
  by (simp_all add: morph_index_def morph_value_def node_of_write_node)

lemma morph_avatar_cong:
  "avatar s = avatar s' \<Longrightarrow> morph_index s k n = morph_index s' k n"
  "avatar s = avatar s' \<Longrightarrow> morph_value s k n = morph_value s' k n"
  by (simp_all add: morph_index_def morph_value_def node_of_eq)

lemma morph_value_None_iff: "morph_value s k n = None \<longleftrightarrow> morph_index s k n = None"
  by (simp add: morph_value_def morph_index_def channel_value_def channel_index_def
      split: option.splits)

lemma morph_update_fields [simp]:
  "morph_index (s\<lparr> outLevel := x \<rparr>) k n = morph_index s k n"
  "morph_index (s\<lparr> inLevel := x \<rparr>) k n = morph_index s k n"
  "morph_index (s\<lparr> blinkT := x \<rparr>) k n = morph_index s k n"
  "morph_index (s\<lparr> nextBlinkAt := x \<rparr>) k n = morph_index s k n"
  "morph_index (s\<lparr> dancePhase := x \<rparr>) k n = morph_index s k n"
  "morph_index (s\<lparr> isDancing := b \<rparr>) k n = morph_index s k n"
  "morph_index (s\<lparr> console := l \<rparr>) k n = morph_index s k n"
  "morph_value (s\<lparr> outLevel := x \<rparr>) k n = morph_value s k n"
  "morph_value (s\<lparr> inLevel := x \<rparr>) k n = morph_value s k n"
  "morph_value (s\<lparr> blinkT := x \<rparr>) k n = morph_value s k n"
  "morph_value (s\<lparr> nextBlinkAt := x \<rparr>) k n = morph_value s k n"
  "morph_value (s\<lparr> dancePhase := x \<rparr>) k n = morph_value s k n"
  "morph_value (s\<lparr> isDancing := b \<rparr>) k n = morph_value s k n"
  "morph_value (s\<lparr> console := l \<rparr>) k n = morph_value s k n"
  by (simp_all add: morph_index_def morph_value_def node_of_eq)

lemma channel_pose_updates [simp]:
  "channel_index (c\<lparr> position_y := x \<rparr>) n = channel_index c n"
  "channel_index (c\<lparr> rotation_x := x \<rparr>) n = channel_index c n"
  "channel_index (c\<lparr> rotation_y := x \<rparr>) n = channel_index c n"
  "channel_index (c\<lparr> rotation_z := x \<rparr>) n = channel_index c n"
  "channel_index (c\<lparr> scale_xyz := t \<rparr>) n = channel_index c n"
  "channel_value (c\<lparr> position_y := x \<rparr>) n = channel_value c n"
  "channel_value (c\<lparr> rotation_x := x \<rparr>) n = channel_value c n"
  "channel_value (c\<lparr> rotation_y := x \<rparr>) n = channel_value c n"
  "channel_value (c\<lparr> rotation_z := x \<rparr>) n = channel_value c n"
  "channel_value (c\<lparr> scale_xyz := t \<rparr>) n = channel_value c n"
  by (simp_all add: channel_index_def channel_value_def)

lemma morph_animate_head [simp]:
  "morph_index (animate_head e s) k n = morph_index s k n"
  "morph_value (animate_head e s) k n = morph_value s k n"
  by (simp_all add: animate_head_def Let_def morph_write_node split: option.splits prod.splits)

lemma morph_animate_ears [simp]:
  "morph_index (animate_ears e s) k n = morph_index s k n"
  "morph_value (animate_ears e s) k n = morph_value s k n"
  by (simp_all add: animate_ears_def Let_def morph_write_node split: option.splits)

lemma morph_index_mode_logic [simp]:
  "morph_index (mode_logic dt e s) k n = morph_index s k n"
  by (cases "mode s") (simp_all add: mode_logic_def Let_def morph_write_node)

lemma morph_index_teeth_follow:
  assumes "teeth_follow s = Inr s'"
  shows "morph_index s' k n = morph_index s k n"
proof (cases "s' = s")
  case True
  then show ?thesis by simp
next
  case False
  with assms obtain ti teeth tinfl idx v where
    t: "deref s (teethMesh s) = Some (ti, teeth)" "morphTargetInfluences teeth = Some tinfl"
    and s': "s' = write_node ti (\<lambda>c. c\<lparr> morphTargetInfluences := Some (tinfl(idx \<mapsto> v)) \<rparr>) s"
    by (auto simp: teeth_follow_def Let_def split: option.splits prod.splits)
  from t(1) have node: "node_of s ti = Some teeth"
    by (auto simp: node_of_def deref_def split: option.splits if_splits)
  show ?thesis
  proof (cases "k = ti")
    case True
    with node t(2) show ?thesis
      by (simp add: s' morph_index_def node_of_write_node channel_index_def split: option.splits)
  next
    case False
    then show ?thesis by (simp add: s' morph_write_other_node)
  qed
qed

lemma morph_value_teeth_follow:
  assumes "teeth_follow s = Inr s'" and "teethMesh s \<noteq> Some k"
  shows "morph_value s' k n = morph_value s k n"
proof (cases "s' = s")
  case True
  then show ?thesis by simp
next
  case False
  with assms(1) obtain ti teeth f where
    t: "deref s (teethMesh s) = Some (ti, teeth)" and s': "s' = write_node ti f s"
    by (auto simp: teeth_follow_def Let_def split: option.splits prod.splits)
  from t have "teethMesh s = Some ti"
    by (auto simp: deref_def split: option.splits if_splits)
  with assms(2) have "k \<noteq> ti" by auto
  then show ?thesis by (simp add: s' morph_write_other_node)
qed

lemma morph_index_doBlink [simp]: "morph_index (doBlink dt e s) k n = morph_index s k n"
  by (simp add: doBlink_def Let_def scheduleNextBlink_def)

lemma morph_value_doBlink:
  assumes "morph_index s k ''eyeBlinkLeft'' \<noteq> morph_index s k n"
    and "morph_index s k ''eyeBlinkRight'' \<noteq> morph_index s k n"
    and "morph_index s k ''eyesClosed'' \<noteq> morph_index s k n"
  shows "morph_value (doBlink dt e s) k n = morph_value s k n"
  using assms by (simp add: doBlink_def Let_def scheduleNextBlink_def morph_value_applyMorph)

subsection \<open>A frame, stage by stage\<close>

lemma animate_stages:
  "animate e s =
     (case teeth_follow (mode_logic (delta e) e (animate_until_switch e s)) of
        Inl err \<Rightarrow> (mode_logic (delta e) e (animate_until_switch e s), Some err)
      | Inr s8 \<Rightarrow> (doBlink (delta e) e s8, None))"
  unfolding animate_def animate_until_switch_def Let_def by (rule refl)

lemma animate_until_switch_fields [simp]:
  "mode (animate_until_switch e s) = mode s"
  "outLevel (animate_until_switch e s) = pullLevel (outputAnalyser e) (outLevel s) 0.35"
  "inLevel (animate_until_switch e s) = pullLevel (inputAnalyser e) (inLevel s) 0.35"
  "teethMesh (animate_until_switch e s) = teethMesh s"
  "headMesh (animate_until_switch e s) = headMesh s"
  by (simp_all add: animate_until_switch_def Let_def)

lemma morph_index_animate_until_switch [simp]:
  "morph_index (animate_until_switch e s) k n = morph_index s k n"
  by (simp add: animate_until_switch_def Let_def)

lemma morph_value_animate_until_switch:
  "morph_value (animate_until_switch e s) k n =
     (if morph_index s k ''mouthSmile'' = morph_index s k n
      then map_option (\<lambda>cur. lerp cur 0 0.12) (morph_value s k n)
      else morph_value s k n)"
  by (simp add: animate_until_switch_def Let_def morph_value_lerpMorph clamp_def)

lemma morph_index_animate [simp]: "morph_index (fst (animate e s)) k n = morph_index s k n"
  by (simp add: animate_stages morph_index_teeth_follow split: sum.splits)

text \<open>
  What the teeth follower and the blink leave alone: a channel of a node other than the
  teeth mesh whose index is not the index of one of the three eyelid channels.
\<close>

lemma morph_value_after_switch:
  assumes "teethMesh s \<noteq> Some k"
    and "morph_index s k ''eyeBlinkLeft'' \<noteq> morph_index s k n"
    and "morph_index s k ''eyeBlinkRight'' \<noteq> morph_index s k n"
    and "morph_index s k ''eyesClosed'' \<noteq> morph_index s k n"
  shows "morph_value (fst (animate e s)) k n =
           morph_value (mode_logic (delta e) e (animate_until_switch e s)) k n"
proof (cases "teeth_follow (mode_logic (delta e) e (animate_until_switch e s))")
  case (Inl err)
  then show ?thesis by (simp add: animate_stages)
next
  case (Inr s8)
  let ?s7 = "mode_logic (delta e) e (animate_until_switch e s)"
  have t: "teethMesh ?s7 \<noteq> Some k" using assms(1) by simp
  have ix: "morph_index s8 k m = morph_index s k m" for m
    using morph_index_teeth_follow [OF Inr] by simp
  have "morph_value (doBlink (delta e) e s8) k n = morph_value s8 k n"
    using assms(2-4) by (intro morph_value_doBlink) (simp_all add: ix)
  also have "\<dots> = morph_value ?s7 k n"
    using Inr t by (rule morph_value_teeth_follow)
  finally show ?thesis by (simp add: animate_stages Inr)
qed

lemma clamp_idem: "clamp (clamp x 0 1) 0 1 = clamp x 0 1"
  by (simp add: clamp_def max_def min_def)

lemma clamp_whisper: "0 \<le> hi \<Longrightarrow> hi \<le> 1 \<Longrightarrow> clamp (clamp x 0 hi) 0 1 = clamp x 0 hi"
  by (simp add: clamp_def max_def min_def)

lemma mode_logic_speak_mouthOpen:
  assumes "mode s = Speak" and "morph_index s k ''mouthOpen'' = Some i"
    and "morph_index s k ''mouthSmile'' \<noteq> Some i"
  shows "morph_value (mode_logic dt e s) k ''mouthOpen'' = Some (clamp (outLevel s * 3.0) 0 1)"
proof -
  from assms(2) obtain v where v: "morph_value s k ''mouthOpen'' = Some v"
    using morph_value_None_iff [of s k "''mouthOpen''"] by fastforce
  show ?thesis
    using assms v
    by (simp add: mode_logic_def Let_def morph_value_lerpMorph morph_value_applyMorph clamp_idem)
qed

lemma mode_logic_speak_mouthSmile:
  assumes "mode s = Speak" and "morph_index s k ''mouthOpen'' \<noteq> morph_index s k ''mouthSmile''"
  shows "morph_value (mode_logic dt e s) k ''mouthSmile'' =
           map_option (\<lambda>cur. lerp cur (clamp (outLevel s * 3.0) 0 1) 0.15)
             (morph_value s k ''mouthSmile'')"
  using assms
  by (simp add: mode_logic_def Let_def morph_value_lerpMorph morph_value_applyMorph clamp_idem)

lemma mode_logic_whisper_mouthOpen:
  assumes "mode s = Whisper" and "morph_index s k ''mouthOpen'' = Some i"
    and "morph_index s k ''mouthSmile'' \<noteq> Some i"
  shows "morph_value (mode_logic dt e s) k ''mouthOpen'' = Some (clamp (outLevel s * 1.2) 0 0.4)"
proof -
  from assms(2) obtain v where v: "morph_value s k ''mouthOpen'' = Some v"
    using morph_value_None_iff [of s k "''mouthOpen''"] by fastforce
  show ?thesis
    using assms v
    by (simp add: mode_logic_def Let_def morph_value_lerpMorph morph_value_applyMorph
        morph_write_node clamp_whisper)
qed

lemma mode_logic_whisper_mouthSmile:
  assumes "mode s = Whisper" and "morph_index s k ''mouthOpen'' \<noteq> morph_index s k ''mouthSmile''"
  shows "morph_value (mode_logic dt e s) k ''mouthSmile'' =
           map_option (\<lambda>cur. lerp cur 0.15 0.08) (morph_value s k ''mouthSmile'')"
  using assms
  by (simp add: mode_logic_def Let_def morph_value_lerpMorph morph_value_applyMorph
      morph_write_node clamp_def)

subsection \<open>The small rig\<close>

lemma example_loaded_fields:
  "avatar example_loaded = Some example_rig"
  "headMesh example_loaded = Some 1"
  "teethMesh example_loaded = Some 2"
  "mode example_loaded = Idle"
  "outLevel example_loaded = 0"
  "nextBlinkAt example_loaded = 4000"
  "blinkT example_loaded = 0"
  by (simp_all add: example_loaded_def loadAvatar_loaded_def Let_def example_rig_def nodes_def
      example_group_def example_head_def example_teeth_def scheduleNextBlink_def
      initial_state_def)

lemma example_nodes:
  "node_of s (Suc 0) = Some example_head" "node_of s 2 = Some example_teeth"
  if "avatar s = Some example_rig" for s
  using that by (simp_all add: node_of_eq nodes_def example_rig_def)

lemma example_head_channels:
  "channel_index example_head ''mouthOpen'' = Some (Index 0)"
  "channel_index example_head ''mouthSmile'' = Some (Index 1)"
  "channel_index example_head ''eyeBlinkLeft'' = Some (Index 2)"
  "channel_index example_head ''eyeBlinkRight'' = Some (Index 3)"
  "channel_index example_head ''eyesClosed'' = None"
  "channel_index example_head ''mouthFrown'' = None"
  "channel_value example_head ''mouthOpen'' = Some 0"
  "channel_value example_head ''mouthSmile'' = Some 0"
  by (simp_all add: channel_index_def channel_value_def example_head_def influence_or_0_def
      dict_get_def object_prototype_names_def)

lemma example_other_channels:
  "channel_index example_teeth ''mouthFrown'' = None"
  "channel_index example_group n = None"
  by (simp_all add: channel_index_def example_teeth_def example_group_def dict_get_def
      object_prototype_names_def)

subsection \<open>The mouth in Speak and Whisper mode\<close>

text \<open>
  C2. A frame in Speak mode with smoothed output level \<open>L\<close> writes \<open>clamp(L \<times> 3, 0, 1)\<close>
  to \<open>mouthOpen\<close> as it is, whatever the value before: with \<open>L = 0.5\<close> the channel is
  exactly 1 after the frame. \<open>mouthSmile\<close> is interpolated: after the baseline step of
  every frame (rate 0.12 toward 0) it moves by the rate 0.15 toward the same clamped
  value, so with \<open>L = 0.5\<close> it ends strictly between where the baseline step left it and 1,
  and at 0.15 when it was 0 before. This is stated for every node with both channels other
  than the teeth mesh, whose eyelid channels have indices of their own.
\<close>

theorem speak_mouthOpen_direct_mouthSmile_lerped:
  "mode s = Speak \<and>
   morph_value s k ''mouthOpen'' = Some mo \<and> morph_value s k ''mouthSmile'' = Some sm \<and>
   teethMesh s \<noteq> Some k \<and>
   morph_index s k ''mouthOpen'' \<noteq> morph_index s k ''mouthSmile'' \<and>
   (\<forall>n \<in> {''eyeBlinkLeft'', ''eyeBlinkRight'', ''eyesClosed''}.
      morph_index s k n \<noteq> morph_index s k ''mouthOpen'' \<and>
      morph_index s k n \<noteq> morph_index s k ''mouthSmile'') \<longrightarrow>
   morph_value (fst (animate e s)) k ''mouthOpen''
     = Some (clamp (outLevel (fst (animate e s)) * 3.0) 0 1) \<and>
   morph_value (fst (animate e s)) k ''mouthSmile''
     = Some (lerp (lerp sm 0 0.12) (clamp (outLevel (fst (animate e s)) * 3.0) 0 1) 0.15) \<and>
   (outLevel (fst (animate e s)) = 0.5 \<longrightarrow>
      morph_value (fst (animate e s)) k ''mouthOpen'' = Some 1 \<and>
      (sm = 0 \<longrightarrow> morph_value (fst (animate e s)) k ''mouthSmile'' = Some 0.15) \<and>
      (sm < 1 \<longrightarrow>
         (\<exists>v. morph_value (fst (animate e s)) k ''mouthSmile'' = Some v \<and>
              lerp sm 0 0.12 < v \<and> v < 1)))"
proof (intro impI)
  assume a: "mode s = Speak \<and>
   morph_value s k ''mouthOpen'' = Some mo \<and> morph_value s k ''mouthSmile'' = Some sm \<and>
   teethMesh s \<noteq> Some k \<and>
   morph_index s k ''mouthOpen'' \<noteq> morph_index s k ''mouthSmile'' \<and>
   (\<forall>n \<in> {''eyeBlinkLeft'', ''eyeBlinkRight'', ''eyesClosed''}.
      morph_index s k n \<noteq> morph_index s k ''mouthOpen'' \<and>
      morph_index s k n \<noteq> morph_index s k ''mouthSmile'')"
  let ?s6 = "animate_until_switch e s"
  let ?L = "outLevel (fst (animate e s))"
  have L: "?L = outLevel ?s6" by (simp add: animate_outLevel)
  from a obtain i where i: "morph_index s k ''mouthOpen'' = Some i"
    using morph_value_None_iff [of s k "''mouthOpen''"] by fastforce
  have "morph_value (fst (animate e s)) k ''mouthOpen''
          = morph_value (mode_logic (delta e) e ?s6) k ''mouthOpen''"
    using a by (intro morph_value_after_switch) simp_all
  also have "\<dots> = Some (clamp (outLevel ?s6 * 3.0) 0 1)"
    using a i by (intro mode_logic_speak_mouthOpen [where i = i]) auto
  finally have mouth: "morph_value (fst (animate e s)) k ''mouthOpen'' = Some (clamp (?L * 3.0) 0 1)"
    by (simp only: L)
  have pre: "morph_value ?s6 k ''mouthSmile'' = Some (lerp sm 0 0.12)"
    using a by (simp add: morph_value_animate_until_switch)
  have "morph_value (fst (animate e s)) k ''mouthSmile''
          = morph_value (mode_logic (delta e) e ?s6) k ''mouthSmile''"
    using a by (intro morph_value_after_switch) simp_all
  also have "\<dots> = map_option (\<lambda>cur. lerp cur (clamp (outLevel ?s6 * 3.0) 0 1) 0.15)
                      (morph_value ?s6 k ''mouthSmile'')"
    using a by (intro mode_logic_speak_mouthSmile) simp_all
  finally have smile: "morph_value (fst (animate e s)) k ''mouthSmile''
          = Some (lerp (lerp sm 0 0.12) (clamp (?L * 3.0) 0 1) 0.15)"
    by (simp only: L pre option.map)
  have half: "clamp (?L * 3.0) 0 1 = 1" if "?L = 0.5"
    using that by (simp add: clamp_def)
  have partway: "lerp sm 0 0.12 < lerp (lerp sm 0 0.12) 1 0.15 \<and> lerp (lerp sm 0 0.12) 1 0.15 < 1"
    if "sm < 1"
    using that by (simp add: lerp_def)
  show "morph_value (fst (animate e s)) k ''mouthOpen'' = Some (clamp (?L * 3.0) 0 1) \<and>
   morph_value (fst (animate e s)) k ''mouthSmile''
     = Some (lerp (lerp sm 0 0.12) (clamp (?L * 3.0) 0 1) 0.15) \<and>
   (?L = 0.5 \<longrightarrow>
      morph_value (fst (animate e s)) k ''mouthOpen'' = Some 1 \<and>
      (sm = 0 \<longrightarrow> morph_value (fst (animate e s)) k ''mouthSmile'' = Some 0.15) \<and>
      (sm < 1 \<longrightarrow>
         (\<exists>v. morph_value (fst (animate e s)) k ''mouthSmile'' = Some v \<and>
              lerp sm 0 0.12 < v \<and> v < 1)))"
  proof (intro conjI impI)
    show "morph_value (fst (animate e s)) k ''mouthOpen'' = Some (clamp (?L * 3.0) 0 1)"
      by (rule mouth)
    show "morph_value (fst (animate e s)) k ''mouthSmile''
            = Some (lerp (lerp sm 0 0.12) (clamp (?L * 3.0) 0 1) 0.15)"
      by (rule smile)
  next
    assume h: "?L = 0.5"
    show "morph_value (fst (animate e s)) k ''mouthOpen'' = Some 1"
      using mouth half [OF h] by simp
  next
    assume h: "?L = 0.5" and z: "sm = 0"
    show "morph_value (fst (animate e s)) k ''mouthSmile'' = Some 0.15"
      using smile half [OF h] z by (simp add: lerp_def)
  next
    assume h: "?L = 0.5" and lt: "sm < 1"
    show "\<exists>v. morph_value (fst (animate e s)) k ''mouthSmile'' = Some v \<and>
              lerp sm 0 0.12 < v \<and> v < 1"
      using smile half [OF h] partway [OF lt] by simp
  qed
qed

lemma example_loaded_morphs:
  "morph_index example_loaded (Suc 0) ''mouthOpen'' = Some (Index 0)"
  "morph_index example_loaded (Suc 0) ''mouthSmile'' = Some (Index 1)"
  "morph_index example_loaded (Suc 0) ''eyeBlinkLeft'' = Some (Index 2)"
  "morph_index example_loaded (Suc 0) ''eyeBlinkRight'' = Some (Index 3)"
  "morph_index example_loaded (Suc 0) ''eyesClosed'' = None"
  "morph_value example_loaded (Suc 0) ''mouthOpen'' = Some 0"
  "morph_value example_loaded (Suc 0) ''mouthSmile'' = Some 0"
  by (simp_all add: morph_index_def morph_value_def example_nodes example_loaded_fields
      example_head_channels)

lemma morph_mode_outLevel_update [simp]:
  "morph_index (s\<lparr> mode := m \<rparr>) k n = morph_index s k n"
  "morph_value (s\<lparr> mode := m \<rparr>) k n = morph_value s k n"
  by (simp_all add: morph_index_def morph_value_def node_of_eq)

theorem speak_mouthOpen_direct_mouthSmile_lerped_witness:
  "mode (startSpeaking (example_loaded\<lparr> outLevel := 1/2 \<rparr>)) = Speak \<and>
   morph_value (startSpeaking (example_loaded\<lparr> outLevel := 1/2 \<rparr>)) 1 ''mouthOpen'' = Some 0 \<and>
   morph_value (startSpeaking (example_loaded\<lparr> outLevel := 1/2 \<rparr>)) 1 ''mouthSmile'' = Some 0 \<and>
   teethMesh (startSpeaking (example_loaded\<lparr> outLevel := 1/2 \<rparr>)) \<noteq> Some 1 \<and>
   outLevel (fst (animate
      \<lparr> now = 16, delta = 0.016, rand = 1/2, outputAnalyser = Some (Some [127, 128]),
        inputAnalyser = None \<rparr>
      (startSpeaking (example_loaded\<lparr> outLevel := 1/2 \<rparr>)))) = 1/2 \<and>
   morph_value (fst (animate
      \<lparr> now = 16, delta = 0.016, rand = 1/2, outputAnalyser = Some (Some [127, 128]),
        inputAnalyser = None \<rparr>
      (startSpeaking (example_loaded\<lparr> outLevel := 1/2 \<rparr>)))) 1 ''mouthOpen'' = Some 1 \<and>
   morph_value (fst (animate
      \<lparr> now = 16, delta = 0.016, rand = 1/2, outputAnalyser = Some (Some [127, 128]),
        inputAnalyser = None \<rparr>
      (startSpeaking (example_loaded\<lparr> outLevel := 1/2 \<rparr>)))) 1 ''mouthSmile'' = Some (3/20)"
proof -
  let ?s = "startSpeaking (example_loaded\<lparr> outLevel := 1/2 \<rparr>)"
  let ?e = "\<lparr> now = 16, delta = 0.016, rand = 1/2, outputAnalyser = Some (Some [127, 128 :: 8 word]),
        inputAnalyser = None \<rparr>"
  have L: "outLevel (fst (animate ?e ?s)) = 0.5"
    by (simp add: animate_outLevel startSpeaking_def pullLevel_def)
  have hyp: "mode ?s = Speak" "morph_value ?s 1 ''mouthOpen'' = Some 0"
    "morph_value ?s 1 ''mouthSmile'' = Some 0" "teethMesh ?s \<noteq> Some 1"
    "morph_index ?s 1 ''mouthOpen'' = Some (Index 0)"
    "morph_index ?s 1 ''mouthSmile'' = Some (Index 1)"
    "morph_index ?s 1 ''eyeBlinkLeft'' = Some (Index 2)"
    "morph_index ?s 1 ''eyeBlinkRight'' = Some (Index 3)"
    "morph_index ?s 1 ''eyesClosed'' = None"
    by (simp_all add: startSpeaking_def example_loaded_morphs example_loaded_fields)
  have prem: "mode ?s = Speak \<and>
      morph_value ?s 1 ''mouthOpen'' = Some 0 \<and> morph_value ?s 1 ''mouthSmile'' = Some 0 \<and>
      teethMesh ?s \<noteq> Some 1 \<and>
      morph_index ?s 1 ''mouthOpen'' \<noteq> morph_index ?s 1 ''mouthSmile'' \<and>
      (\<forall>n \<in> {''eyeBlinkLeft'', ''eyeBlinkRight'', ''eyesClosed''}.
         morph_index ?s 1 n \<noteq> morph_index ?s 1 ''mouthOpen'' \<and>
         morph_index ?s 1 n \<noteq> morph_index ?s 1 ''mouthSmile'')"
    using hyp by simp
  note main = speak_mouthOpen_direct_mouthSmile_lerped [of ?s 1 0 0 ?e, THEN mp, OF prem]
  from main L have m: "morph_value (fst (animate ?e ?s)) 1 ''mouthOpen'' = Some 1"
    by blast
  from main L have sm: "morph_value (fst (animate ?e ?s)) 1 ''mouthSmile'' = Some 0.15"
    by blast
  from hyp(1-4) L m sm show ?thesis by simp
qed

text \<open>
  C5. A frame in Whisper mode with smoothed output level \<open>L\<close> writes
  \<open>clamp(L \<times> 1.2, 0, 0.4)\<close> to \<open>mouthOpen\<close>, which is exactly 0.4 for \<open>L = 1\<close>, and moves
  \<open>mouthSmile\<close> by the rate 0.08 toward the constant 0.15 (after the baseline step of
  every frame). Stated for the same nodes as in Speak mode.
\<close>

theorem whisper_mouthOpen_capped_mouthSmile_fixed:
  "mode s = Whisper \<and>
   morph_value s k ''mouthOpen'' = Some mo \<and> morph_value s k ''mouthSmile'' = Some sm \<and>
   teethMesh s \<noteq> Some k \<and>
   morph_index s k ''mouthOpen'' \<noteq> morph_index s k ''mouthSmile'' \<and>
   (\<forall>n \<in> {''eyeBlinkLeft'', ''eyeBlinkRight'', ''eyesClosed''}.
      morph_index s k n \<noteq> morph_index s k ''mouthOpen'' \<and>
      morph_index s k n \<noteq> morph_index s k ''mouthSmile'') \<longrightarrow>
   morph_value (fst (animate e s)) k ''mouthOpen''
     = Some (clamp (outLevel (fst (animate e s)) * 1.2) 0 0.4) \<and>
   morph_value (fst (animate e s)) k ''mouthSmile''
     = Some (lerp (lerp sm 0 0.12) 0.15 0.08) \<and>
   (outLevel (fst (animate e s)) = 1 \<longrightarrow>
      morph_value (fst (animate e s)) k ''mouthOpen'' = Some 0.4)"
proof (intro impI)
  assume a: "mode s = Whisper \<and>
   morph_value s k ''mouthOpen'' = Some mo \<and> morph_value s k ''mouthSmile'' = Some sm \<and>
   teethMesh s \<noteq> Some k \<and>
   morph_index s k ''mouthOpen'' \<noteq> morph_index s k ''mouthSmile'' \<and>
   (\<forall>n \<in> {''eyeBlinkLeft'', ''eyeBlinkRight'', ''eyesClosed''}.
      morph_index s k n \<noteq> morph_index s k ''mouthOpen'' \<and>
      morph_index s k n \<noteq> morph_index s k ''mouthSmile'')"
  let ?s6 = "animate_until_switch e s"
  let ?L = "outLevel (fst (animate e s))"
  have L: "?L = outLevel ?s6" by (simp add: animate_outLevel)
  from a obtain i where i: "morph_index s k ''mouthOpen'' = Some i"
    using morph_value_None_iff [of s k "''mouthOpen''"] by fastforce
  have "morph_value (fst (animate e s)) k ''mouthOpen''
          = morph_value (mode_logic (delta e) e ?s6) k ''mouthOpen''"
    using a by (intro morph_value_after_switch) simp_all
  also have "\<dots> = Some (clamp (outLevel ?s6 * 1.2) 0 0.4)"
    using a i by (intro mode_logic_whisper_mouthOpen [where i = i]) auto
  finally have mouth:
    "morph_value (fst (animate e s)) k ''mouthOpen'' = Some (clamp (?L * 1.2) 0 0.4)"
    by (simp only: L)
  have pre: "morph_value ?s6 k ''mouthSmile'' = Some (lerp sm 0 0.12)"
    using a by (simp add: morph_value_animate_until_switch)
  have "morph_value (fst (animate e s)) k ''mouthSmile''
          = morph_value (mode_logic (delta e) e ?s6) k ''mouthSmile''"
    using a by (intro morph_value_after_switch) simp_all
  also have "\<dots> = map_option (\<lambda>cur. lerp cur 0.15 0.08) (morph_value ?s6 k ''mouthSmile'')"
    using a by (intro mode_logic_whisper_mouthSmile) simp_all
  finally have smile:
    "morph_value (fst (animate e s)) k ''mouthSmile'' = Some (lerp (lerp sm 0 0.12) 0.15 0.08)"
    by (simp only: pre option.map)
  have cap: "clamp (?L * 1.2) 0 0.4 = 0.4" if "?L = 1"
    using that by (simp add: clamp_def)
  from mouth smile cap
  show "morph_value (fst (animate e s)) k ''mouthOpen'' = Some (clamp (?L * 1.2) 0 0.4) \<and>
   morph_value (fst (animate e s)) k ''mouthSmile'' = Some (lerp (lerp sm 0 0.12) 0.15 0.08) \<and>
   (?L = 1 \<longrightarrow> morph_value (fst (animate e s)) k ''mouthOpen'' = Some 0.4)"
    by simp
qed

theorem whisper_mouthOpen_capped_mouthSmile_fixed_witness:
  "mode (startWhisper (example_loaded\<lparr> outLevel := 1 \<rparr>)) = Whisper \<and>
   morph_value (startWhisper (example_loaded\<lparr> outLevel := 1 \<rparr>)) 1 ''mouthOpen'' = Some 0 \<and>
   morph_value (startWhisper (example_loaded\<lparr> outLevel := 1 \<rparr>)) 1 ''mouthSmile'' = Some 0 \<and>
   teethMesh (startWhisper (example_loaded\<lparr> outLevel := 1 \<rparr>)) \<noteq> Some 1 \<and>
   outLevel (fst (animate
      \<lparr> now = 16, delta = 0.016, rand = 1/2, outputAnalyser = Some (Some [255, 255]),
        inputAnalyser = None \<rparr>
      (startWhisper (example_loaded\<lparr> outLevel := 1 \<rparr>)))) = 1 \<and>
   morph_value (fst (animate
      \<lparr> now = 16, delta = 0.016, rand = 1/2, outputAnalyser = Some (Some [255, 255]),
        inputAnalyser = None \<rparr>
      (startWhisper (example_loaded\<lparr> outLevel := 1 \<rparr>)))) 1 ''mouthOpen'' = Some (2/5) \<and>
   morph_value (fst (animate
      \<lparr> now = 16, delta = 0.016, rand = 1/2, outputAnalyser = Some (Some [255, 255]),
        inputAnalyser = None \<rparr>
      (startWhisper (example_loaded\<lparr> outLevel := 1 \<rparr>)))) 1 ''mouthSmile'' = Some (3/250)"
proof -
  let ?s = "startWhisper (example_loaded\<lparr> outLevel := 1 \<rparr>)"
  let ?e = "\<lparr> now = 16, delta = 0.016, rand = 1/2, outputAnalyser = Some (Some [255, 255 :: 8 word]),
        inputAnalyser = None \<rparr>"
  have L: "outLevel (fst (animate ?e ?s)) = 1"
    by (simp add: animate_outLevel startWhisper_def pullLevel_def)
  have hyp: "mode ?s = Whisper" "morph_value ?s 1 ''mouthOpen'' = Some 0"
    "morph_value ?s 1 ''mouthSmile'' = Some 0" "teethMesh ?s \<noteq> Some 1"
    "morph_index ?s 1 ''mouthOpen'' = Some (Index 0)"
    "morph_index ?s 1 ''mouthSmile'' = Some (Index 1)"
    "morph_index ?s 1 ''eyeBlinkLeft'' = Some (Index 2)"
    "morph_index ?s 1 ''eyeBlinkRight'' = Some (Index 3)"
    "morph_index ?s 1 ''eyesClosed'' = None"
    by (simp_all add: startWhisper_def example_loaded_morphs example_loaded_fields)
  have prem: "mode ?s = Whisper \<and>
      morph_value ?s 1 ''mouthOpen'' = Some 0 \<and> morph_value ?s 1 ''mouthSmile'' = Some 0 \<and>
      teethMesh ?s \<noteq> Some 1 \<and>
      morph_index ?s 1 ''mouthOpen'' \<noteq> morph_index ?s 1 ''mouthSmile'' \<and>
      (\<forall>n \<in> {''eyeBlinkLeft'', ''eyeBlinkRight'', ''eyesClosed''}.
         morph_index ?s 1 n \<noteq> morph_index ?s 1 ''mouthOpen'' \<and>
         morph_index ?s 1 n \<noteq> morph_index ?s 1 ''mouthSmile'')"
    using hyp by simp
  note main = whisper_mouthOpen_capped_mouthSmile_fixed [of ?s 1 0 0 ?e, THEN mp, OF prem]
  from main L have m: "morph_value (fst (animate ?e ?s)) 1 ''mouthOpen'' = Some 0.4"
    by blast
  from main have sm: "morph_value (fst (animate ?e ?s)) 1 ''mouthSmile''
      = Some (lerp (lerp 0 0 0.12) 0.15 0.08)"
    by blast
  from hyp(1-4) L m sm show ?thesis by (simp add: lerp_def)
qed

subsection \<open>Channels the rig does not have\<close>







subsection \<open>The pose of the avatar group\<close>

lemma avatar_pose_node: "avatar_pose s = map_option node_pose (node_of s 0)"
  by (simp add: avatar_pose_def node_of_eq nodes_def split: option.splits)

lemma node_of_0_None: "node_of s 0 = None \<longleftrightarrow> avatar s = None"
  by (simp add: node_of_eq nodes_def split: option.splits)

lemma node_pose_morph_child [simp]:
  "node_pose (applyMorph_child n v c) = node_pose c"
  "node_pose (lerpMorph_child n v r c) = node_pose c"
  "node_pose (c\<lparr> morphTargetInfluences := x \<rparr>) = node_pose c"
  by (simp_all add: node_pose_def applyMorph_child_def lerpMorph_child_def Let_def
      split: option.splits)

lemma avatar_pose_applyMorph [simp]: "avatar_pose (applyMorph n v s) = avatar_pose s"
  by (simp add: avatar_pose_node node_of_applyMorph option.map_comp comp_def)

lemma avatar_pose_lerpMorph [simp]: "avatar_pose (lerpMorph n v r s) = avatar_pose s"
  by (simp add: avatar_pose_node node_of_lerpMorph option.map_comp comp_def)

lemma avatar_pose_update_fields [simp]:
  "avatar_pose (s\<lparr> blinkT := x \<rparr>) = avatar_pose s"
  "avatar_pose (s\<lparr> nextBlinkAt := x \<rparr>) = avatar_pose s"
  "avatar_pose (s\<lparr> dancePhase := x \<rparr>) = avatar_pose s"
  "avatar_pose (s\<lparr> isDancing := b \<rparr>) = avatar_pose s"
  "avatar_pose (s\<lparr> mode := m \<rparr>) = avatar_pose s"
  by (simp_all add: avatar_pose_def)

lemma avatar_pose_write_influences:
  "avatar_pose (write_node i (\<lambda>c. c\<lparr> morphTargetInfluences := x \<rparr>) s) = avatar_pose s"
  by (simp add: avatar_pose_node node_of_write_node option.map_comp comp_def)

lemma avatar_pose_teeth_follow:
  "teeth_follow s = Inr s' \<Longrightarrow> avatar_pose s' = avatar_pose s"
  by (auto simp: teeth_follow_def Let_def avatar_pose_write_influences
      split: option.splits prod.splits)

lemma avatar_pose_doBlink [simp]: "avatar_pose (doBlink dt e s) = avatar_pose s"
  by (simp add: doBlink_def Let_def scheduleNextBlink_def)

lemma avatar_pose_after_switch:
  "avatar_pose (fst (animate e s)) = avatar_pose (mode_logic (delta e) e (animate_until_switch e s))"
  by (simp add: animate_stages avatar_pose_teeth_follow split: sum.splits)

lemma avatar_pose_mode_logic_dance:
  assumes "mode s = Dance" and "avatar s \<noteq> None"
  shows "avatar_pose (mode_logic dt e s) =
           Some (sin (now e * 0.001 * 4) * 0.05 + 0.02,
                 sin (now e * 0.001 * 2) * 0.25,
                 sin (now e * 0.001 * 3.2) * 0.07)"
proof -
  from assms(2) obtain c where c: "node_of s 0 = Some c"
    using node_of_0_None [of s] by auto
  have c': "node_of (s\<lparr> isDancing := True, dancePhase := dancePhase s + dt \<rparr>) 0 = Some c"
    using c by (simp add: node_of_eq)
  show ?thesis
    using assms(1) c'
    by (simp add: mode_logic_def Let_def avatar_pose_node [of "write_node _ _ _"]
        node_of_write_node node_pose_def)
qed

lemma animate_until_switch_loaded:
  "avatar s \<noteq> None \<Longrightarrow> avatar (animate_until_switch e s) \<noteq> None"
proof -
  have head: "node_of (animate_head e t) 0 \<noteq> None" if "node_of t 0 \<noteq> None" for t
    using that
    by (auto simp: animate_head_def Let_def node_of_write_node split: option.splits prod.splits)
  have ears: "node_of (animate_ears e t) 0 \<noteq> None" if "node_of t 0 \<noteq> None" for t
    using that
    by (auto simp: animate_ears_def Let_def node_of_write_node split: option.splits)
  assume "avatar s \<noteq> None"
  then have "node_of (s\<lparr> outLevel := pullLevel (outputAnalyser e) (outLevel s) 0.35,
      inLevel := pullLevel (inputAnalyser e) (inLevel s) 0.35 \<rparr>) 0 \<noteq> None"
    by (simp add: node_of_eq nodes_def split: option.splits)
  then have "node_of (animate_ears e (lerpMorph ''mouthSmile'' 0 0.12 (animate_head e
      (s\<lparr> outLevel := pullLevel (outputAnalyser e) (outLevel s) 0.35,
         inLevel := pullLevel (inputAnalyser e) (inLevel s) 0.35 \<rparr>)))) 0 \<noteq> None"
    by (intro ears) (simp add: node_of_lerpMorph head)
  then show ?thesis
    by (simp add: animate_until_switch_def Let_def node_of_0_None [symmetric] node_of_eq)
qed

lemma animate_frames_mode: "mode (animate_frames es s) = mode s"
  by (induction es arbitrary: s) (simp_all add: animate_mode)

lemma animate_frames_dancePhase_paused:
  "mode s \<noteq> Dance \<Longrightarrow> dancePhase (animate_frames es s) = dancePhase s"
  by (induction es arbitrary: s) (simp_all add: animate_mode animate_dancePhase)

lemma animate_dance_pose:
  assumes "mode s = Dance" and "avatar s \<noteq> None"
  shows "avatar_pose (fst (animate e s)) =
           Some (sin (now e * 0.001 * 4) * 0.05 + 0.02,
                 sin (now e * 0.001 * 2) * 0.25,
                 sin (now e * 0.001 * 3.2) * 0.07)"
proof -
  have m: "mode (animate_until_switch e s) = Dance" using assms(1) by simp
  have a: "avatar (animate_until_switch e s) \<noteq> None"
    using assms(2) by (rule animate_until_switch_loaded)
  show ?thesis
    unfolding avatar_pose_after_switch by (rule avatar_pose_mode_logic_dance [OF m a])
qed

lemma resume_dancePhase:
  "dancePhase (fst (animate e (startDance (animate_frames es (stopDance s))))) =
     dancePhase s + delta e"
proof -
  have "mode (stopDance s) \<noteq> Dance" by (simp add: stopDance_def Let_def)
  then have "dancePhase (animate_frames es (stopDance s)) = dancePhase (stopDance s)"
    by (rule animate_frames_dancePhase_paused)
  then show ?thesis
    by (simp add: animate_dancePhase startDance_def stopDance_def Let_def)
qed

lemma sin_1_ge_half: "1/2 \<le> sin (1::real)"
proof -
  have "pi / 6 \<le> 1" using pi_less_4 by simp
  moreover have "1 \<le> pi / 2" using pi_ge_two by simp
  moreover have "- (pi / 2) \<le> pi / 6" using pi_ge_two by simp
  ultimately have "sin (pi / 6) \<le> sin 1" by (intro sin_monotone_2pi_le) simp_all
  then show ?thesis by (simp add: sin_30)
qed

text \<open>
  C1, as the code has it. On every frame in Dance mode with the avatar loaded, position-Y,
  rotation-Y and rotation-Z of the avatar are sinusoids of the clock time of the frame in
  seconds, at the rates 4, 2 and 3.2. The dance phase grows by \<open>dt\<close> on every frame in
  Dance mode and on no other, \<open>stopDance\<close> and \<open>startDance\<close> keep it, and so the first
  Dance frame after \<open>stopDance\<close>, any number of frames and \<open>startDance\<close> leaves it one
  \<open>dt\<close> above its value before the stop.
\<close>

theorem dance_pose_follows_clock_and_phase_resumes:
  "(mode s = Dance \<and> avatar s \<noteq> None \<longrightarrow>
      avatar_pose (fst (animate e s)) =
        Some (sin (now e * 0.001 * 4) * 0.05 + 0.02,
              sin (now e * 0.001 * 2) * 0.25,
              sin (now e * 0.001 * 3.2) * 0.07)) \<and>
   dancePhase (fst (animate e s)) =
     (if mode s = Dance then dancePhase s + delta e else dancePhase s) \<and>
   dancePhase (stopDance s) = dancePhase s \<and>
   dancePhase (startDance s) = dancePhase s \<and>
   dancePhase (fst (animate e (startDance (animate_frames es (stopDance s))))) =
     dancePhase s + delta e"
  using animate_dance_pose [of s e] resume_dancePhase [of e es s]
  by (simp add: animate_dancePhase stopDance_def startDance_def Let_def)

theorem dance_pose_follows_clock_and_phase_resumes_witness:
  "mode (startDance example_loaded) = Dance \<and>
   avatar (startDance example_loaded) \<noteq> None \<and>
   avatar_pose (fst (animate (silent_frame 0 0.016 (1/2)) (startDance example_loaded)))
     = Some (0.02, 0, 0) \<and>
   dancePhase (fst (animate (silent_frame 0 0.016 (1/2)) (startDance example_loaded))) = 0.016"
proof -
  have h: "mode (startDance example_loaded) = Dance" "avatar (startDance example_loaded) \<noteq> None"
    "dancePhase (startDance example_loaded) = 0"
    by (simp_all add: startDance_def example_loaded_fields example_loaded_def
        loadAvatar_loaded_def Let_def scheduleNextBlink_def initial_state_def
        split: option.splits)
  from dance_pose_follows_clock_and_phase_resumes
      [of "startDance example_loaded" "silent_frame 0 0.016 (1/2)" "[]"] h
  show ?thesis by simp
qed

theorem dance_pose_counterexample:
  "avatar_pose (fst (animate (silent_frame 0 0.016 (1/2)) (startDance example_loaded)))
     = Some (0.02, 0, 0) \<and>
   dancePhase (fst (animate (silent_frame 0 0.016 (1/2)) (startDance example_loaded))) = 0.016 \<and>
   avatar_pose (fst (animate (silent_frame 250 0.016 (1/2))
       (startDance (stopDance
          (fst (animate (silent_frame 0 0.016 (1/2)) (startDance example_loaded)))))))
     = Some (sin 1 * 0.05 + 0.02, sin (1/2) * 0.25, sin (4/5) * 0.07) \<and>
   dancePhase (fst (animate (silent_frame 250 0.016 (1/2))
       (startDance (stopDance
          (fst (animate (silent_frame 0 0.016 (1/2)) (startDance example_loaded)))))))
     = 0.032 \<and>
   0.02 + 4 * 0.016 * 0.05 < sin 1 * 0.05 + (0.02 :: real) \<and>
   dancePhase (fst (animate (silent_frame 250 0.016 (1/2)) (startDance example_loaded)))
     = dancePhase (fst (animate (silent_frame 0 0.016 (1/2)) (startDance example_loaded))) \<and>
   avatar_pose (fst (animate (silent_frame 250 0.016 (1/2)) (startDance example_loaded)))
     \<noteq> avatar_pose (fst (animate (silent_frame 0 0.016 (1/2)) (startDance example_loaded)))"
proof -
  let ?s = "startDance example_loaded"
  let ?eA = "silent_frame 0 0.016 (1/2)"
  let ?eB = "silent_frame 250 0.016 (1/2)"
  let ?sA = "fst (animate ?eA ?s)"
  let ?s2 = "startDance (stopDance ?sA)"
  have h: "mode ?s = Dance" "avatar ?s \<noteq> None" "dancePhase ?s = 0"
    by (simp_all add: startDance_def example_loaded_fields example_loaded_def
        loadAvatar_loaded_def Let_def scheduleNextBlink_def initial_state_def
        split: option.splits)
  have poseA: "avatar_pose ?sA = Some (0.02, 0, 0)"
    using animate_dance_pose [OF h(1,2), of ?eA] by simp
  have phaseA: "dancePhase ?sA = 0.016"
    using h by (simp add: animate_dancePhase)
  have "avatar ?sA \<noteq> None" using poseA by (auto simp: avatar_pose_def)
  then have h2: "mode ?s2 = Dance" "avatar ?s2 \<noteq> None"
    by (simp_all add: startDance_def stopDance_def Let_def)
  have poseB: "avatar_pose (fst (animate ?eB ?s2))
      = Some (sin 1 * 0.05 + 0.02, sin (1/2) * 0.25, sin (4/5) * 0.07)"
    using animate_dance_pose [OF h2, of ?eB] by simp
  have phaseB: "dancePhase (fst (animate ?eB ?s2)) = 0.032"
    using resume_dancePhase [of ?eB "[]" ?sA] phaseA by simp
  have jump: "0.02 + 4 * 0.016 * 0.05 < sin 1 * 0.05 + (0.02 :: real)"
    using sin_1_ge_half by simp
  have poseB': "avatar_pose (fst (animate ?eB ?s))
      = Some (sin 1 * 0.05 + 0.02, sin (1/2) * 0.25, sin (4/5) * 0.07)"
    using animate_dance_pose [OF h(1,2), of ?eB] by simp
  have same: "dancePhase (fst (animate ?eB ?s)) = dancePhase ?sA"
    using h by (simp add: animate_dancePhase)
  have differ: "avatar_pose (fst (animate ?eB ?s)) \<noteq> avatar_pose ?sA"
    unfolding poseA poseB' using sin_1_ge_half by simp
  from poseA phaseA poseB phaseB jump same differ show ?thesis by blast
qed

end
